theory Spec2Isabelle
  imports Complex_Main
begin

section \<open>The size-class tables of \<^verbatim>\<open>tcmalloc/size_classes.cc\<close>\<close>

text \<open>
  The translation unit holds no function: it is eight literal tables, one per
  preprocessor branch, each guarded by two \<^verbatim>\<open>static_assert\<close>s. The embedding keeps
  that shape: every initialiser list is a constant of its own, and the
  preprocessor selection together with the assertions is the function
  \<open>kSizeClassesList\<close> from a build configuration to either a compile error or
  the array.
\<close>

subsection \<open>One row: \<^verbatim>\<open>SizeClassInfo\<close>\<close>

text \<open>
  The fields are named after the columns the source documents (lines 25--44):
  \<open>bytes\<close> is the size of the class, \<open>pages\<close> the number of pages per span,
  \<open>batch\<close> the preferred number of objects for transfers between caches and
  \<open>cap\<close> the maximum cpu cache capacity. All values of the tables are far below
  any machine bound, so the fields are natural numbers.
\<close>

record SizeClassInfo =
  bytes :: nat
  pages :: nat
  batch :: nat
  cap :: nat

subsection \<open>The eight initialiser lists\<close>

text \<open>
  Row for row as in the source, the trailing comment columns left out. The
  aggregate \<^verbatim>\<open>{b, p, n, c}\<close> initialises the four fields in their order.
\<close>

text \<open>
  Lines 54--135: the arm of the outer \<^verbatim>\<open>#if\<close> (default new alignment at most 8),
  \<^verbatim>\<open>TCMALLOC_PAGE_SHIFT == 13\<close>; 82 rows, the sentinel row included.
\<close>

definition kSizeClassesList_align8_shift13 :: "SizeClassInfo list" where
  "kSizeClassesList_align8_shift13 = [
    \<lparr>bytes = 0, pages = 0, batch = 0, cap = 0\<rparr>,
    \<lparr>bytes = 8, pages = 1, batch = 32, cap = 2024\<rparr>,
    \<lparr>bytes = 16, pages = 1, batch = 32, cap = 2024\<rparr>,
    \<lparr>bytes = 32, pages = 1, batch = 32, cap = 2027\<rparr>,
    \<lparr>bytes = 64, pages = 1, batch = 32, cap = 2024\<rparr>,
    \<lparr>bytes = 72, pages = 1, batch = 32, cap = 1275\<rparr>,
    \<lparr>bytes = 80, pages = 1, batch = 32, cap = 2024\<rparr>,
    \<lparr>bytes = 88, pages = 1, batch = 32, cap = 1031\<rparr>,
    \<lparr>bytes = 96, pages = 1, batch = 32, cap = 1206\<rparr>,
    \<lparr>bytes = 104, pages = 1, batch = 32, cap = 489\<rparr>,
    \<lparr>bytes = 112, pages = 1, batch = 32, cap = 804\<rparr>,
    \<lparr>bytes = 120, pages = 1, batch = 32, cap = 505\<rparr>,
    \<lparr>bytes = 128, pages = 1, batch = 32, cap = 957\<rparr>,
    \<lparr>bytes = 136, pages = 1, batch = 32, cap = 355\<rparr>,
    \<lparr>bytes = 144, pages = 1, batch = 32, cap = 646\<rparr>,
    \<lparr>bytes = 160, pages = 1, batch = 32, cap = 721\<rparr>,
    \<lparr>bytes = 176, pages = 1, batch = 32, cap = 378\<rparr>,
    \<lparr>bytes = 192, pages = 1, batch = 32, cap = 491\<rparr>,
    \<lparr>bytes = 208, pages = 1, batch = 32, cap = 326\<rparr>,
    \<lparr>bytes = 224, pages = 1, batch = 32, cap = 284\<rparr>,
    \<lparr>bytes = 240, pages = 1, batch = 32, cap = 266\<rparr>,
    \<lparr>bytes = 256, pages = 1, batch = 32, cap = 613\<rparr>,
    \<lparr>bytes = 264, pages = 1, batch = 32, cap = 155\<rparr>,
    \<lparr>bytes = 280, pages = 1, batch = 32, cap = 292\<rparr>,
    \<lparr>bytes = 312, pages = 1, batch = 32, cap = 347\<rparr>,
    \<lparr>bytes = 336, pages = 1, batch = 32, cap = 360\<rparr>,
    \<lparr>bytes = 352, pages = 1, batch = 32, cap = 188\<rparr>,
    \<lparr>bytes = 384, pages = 1, batch = 32, cap = 244\<rparr>,
    \<lparr>bytes = 408, pages = 1, batch = 32, cap = 213\<rparr>,
    \<lparr>bytes = 424, pages = 1, batch = 32, cap = 162\<rparr>,
    \<lparr>bytes = 448, pages = 1, batch = 32, cap = 232\<rparr>,
    \<lparr>bytes = 480, pages = 1, batch = 32, cap = 194\<rparr>,
    \<lparr>bytes = 512, pages = 1, batch = 32, cap = 409\<rparr>,
    \<lparr>bytes = 576, pages = 1, batch = 32, cap = 252\<rparr>,
    \<lparr>bytes = 640, pages = 1, batch = 32, cap = 214\<rparr>,
    \<lparr>bytes = 704, pages = 1, batch = 32, cap = 188\<rparr>,
    \<lparr>bytes = 768, pages = 1, batch = 32, cap = 185\<rparr>,
    \<lparr>bytes = 896, pages = 1, batch = 32, cap = 203\<rparr>,
    \<lparr>bytes = 1024, pages = 1, batch = 32, cap = 377\<rparr>,
    \<lparr>bytes = 1152, pages = 2, batch = 32, cap = 192\<rparr>,
    \<lparr>bytes = 1280, pages = 2, batch = 32, cap = 170\<rparr>,
    \<lparr>bytes = 1408, pages = 2, batch = 32, cap = 160\<rparr>,
    \<lparr>bytes = 1536, pages = 2, batch = 32, cap = 166\<rparr>,
    \<lparr>bytes = 1792, pages = 2, batch = 32, cap = 163\<rparr>,
    \<lparr>bytes = 2048, pages = 2, batch = 32, cap = 202\<rparr>,
    \<lparr>bytes = 2304, pages = 2, batch = 28, cap = 158\<rparr>,
    \<lparr>bytes = 2688, pages = 2, batch = 24, cap = 149\<rparr>,
    \<lparr>bytes = 2816, pages = 3, batch = 23, cap = 134\<rparr>,
    \<lparr>bytes = 3200, pages = 2, batch = 20, cap = 141\<rparr>,
    \<lparr>bytes = 3456, pages = 3, batch = 18, cap = 133\<rparr>,
    \<lparr>bytes = 3584, pages = 4, batch = 18, cap = 131\<rparr>,
    \<lparr>bytes = 4096, pages = 1, batch = 16, cap = 350\<rparr>,
    \<lparr>bytes = 4736, pages = 3, batch = 13, cap = 140\<rparr>,
    \<lparr>bytes = 5376, pages = 2, batch = 12, cap = 132\<rparr>,
    \<lparr>bytes = 6144, pages = 3, batch = 10, cap = 140\<rparr>,
    \<lparr>bytes = 7168, pages = 7, batch = 9, cap = 134\<rparr>,
    \<lparr>bytes = 8192, pages = 1, batch = 8, cap = 207\<rparr>,
    \<lparr>bytes = 9472, pages = 5, batch = 6, cap = 134\<rparr>,
    \<lparr>bytes = 10240, pages = 4, batch = 6, cap = 129\<rparr>,
    \<lparr>bytes = 12288, pages = 3, batch = 5, cap = 134\<rparr>,
    \<lparr>bytes = 13568, pages = 5, batch = 4, cap = 129\<rparr>,
    \<lparr>bytes = 14336, pages = 7, batch = 4, cap = 128\<rparr>,
    \<lparr>bytes = 16384, pages = 2, batch = 4, cap = 141\<rparr>,
    \<lparr>bytes = 20480, pages = 5, batch = 3, cap = 132\<rparr>,
    \<lparr>bytes = 24576, pages = 3, batch = 2, cap = 131\<rparr>,
    \<lparr>bytes = 28672, pages = 7, batch = 2, cap = 130\<rparr>,
    \<lparr>bytes = 32768, pages = 4, batch = 2, cap = 143\<rparr>,
    \<lparr>bytes = 40960, pages = 5, batch = 2, cap = 130\<rparr>,
    \<lparr>bytes = 49152, pages = 6, batch = 2, cap = 128\<rparr>,
    \<lparr>bytes = 57344, pages = 7, batch = 2, cap = 128\<rparr>,
    \<lparr>bytes = 65536, pages = 8, batch = 2, cap = 133\<rparr>,
    \<lparr>bytes = 73728, pages = 9, batch = 2, cap = 129\<rparr>,
    \<lparr>bytes = 81920, pages = 10, batch = 2, cap = 128\<rparr>,
    \<lparr>bytes = 98304, pages = 12, batch = 2, cap = 128\<rparr>,
    \<lparr>bytes = 114688, pages = 14, batch = 2, cap = 128\<rparr>,
    \<lparr>bytes = 131072, pages = 16, batch = 2, cap = 128\<rparr>,
    \<lparr>bytes = 139264, pages = 17, batch = 2, cap = 128\<rparr>,
    \<lparr>bytes = 155648, pages = 19, batch = 2, cap = 127\<rparr>,
    \<lparr>bytes = 172032, pages = 21, batch = 2, cap = 127\<rparr>,
    \<lparr>bytes = 204800, pages = 25, batch = 2, cap = 127\<rparr>,
    \<lparr>bytes = 229376, pages = 28, batch = 2, cap = 127\<rparr>,
    \<lparr>bytes = 262144, pages = 32, batch = 2, cap = 128\<rparr>]"

text \<open>
  Lines 144--217: the arm of the outer \<^verbatim>\<open>#if\<close> (default new alignment at most 8),
  \<^verbatim>\<open>TCMALLOC_PAGE_SHIFT == 15\<close>; 74 rows, the sentinel row included.
\<close>

definition kSizeClassesList_align8_shift15 :: "SizeClassInfo list" where
  "kSizeClassesList_align8_shift15 = [
    \<lparr>bytes = 0, pages = 0, batch = 0, cap = 0\<rparr>,
    \<lparr>bytes = 8, pages = 1, batch = 32, cap = 1824\<rparr>,
    \<lparr>bytes = 16, pages = 1, batch = 32, cap = 1824\<rparr>,
    \<lparr>bytes = 32, pages = 1, batch = 32, cap = 1824\<rparr>,
    \<lparr>bytes = 64, pages = 1, batch = 32, cap = 1824\<rparr>,
    \<lparr>bytes = 72, pages = 1, batch = 32, cap = 1241\<rparr>,
    \<lparr>bytes = 80, pages = 1, batch = 32, cap = 1824\<rparr>,
    \<lparr>bytes = 88, pages = 1, batch = 32, cap = 1267\<rparr>,
    \<lparr>bytes = 96, pages = 1, batch = 32, cap = 1590\<rparr>,
    \<lparr>bytes = 104, pages = 1, batch = 32, cap = 718\<rparr>,
    \<lparr>bytes = 112, pages = 1, batch = 32, cap = 844\<rparr>,
    \<lparr>bytes = 120, pages = 1, batch = 32, cap = 678\<rparr>,
    \<lparr>bytes = 128, pages = 1, batch = 32, cap = 1447\<rparr>,
    \<lparr>bytes = 136, pages = 1, batch = 32, cap = 428\<rparr>,
    \<lparr>bytes = 144, pages = 1, batch = 32, cap = 599\<rparr>,
    \<lparr>bytes = 160, pages = 1, batch = 32, cap = 744\<rparr>,
    \<lparr>bytes = 176, pages = 1, batch = 32, cap = 461\<rparr>,
    \<lparr>bytes = 192, pages = 1, batch = 32, cap = 603\<rparr>,
    \<lparr>bytes = 208, pages = 1, batch = 32, cap = 297\<rparr>,
    \<lparr>bytes = 240, pages = 1, batch = 32, cap = 686\<rparr>,
    \<lparr>bytes = 256, pages = 1, batch = 32, cap = 811\<rparr>,
    \<lparr>bytes = 280, pages = 1, batch = 32, cap = 385\<rparr>,
    \<lparr>bytes = 304, pages = 1, batch = 32, cap = 289\<rparr>,
    \<lparr>bytes = 320, pages = 1, batch = 32, cap = 203\<rparr>,
    \<lparr>bytes = 352, pages = 1, batch = 32, cap = 398\<rparr>,
    \<lparr>bytes = 400, pages = 1, batch = 32, cap = 298\<rparr>,
    \<lparr>bytes = 448, pages = 1, batch = 32, cap = 255\<rparr>,
    \<lparr>bytes = 512, pages = 1, batch = 32, cap = 480\<rparr>,
    \<lparr>bytes = 576, pages = 1, batch = 32, cap = 238\<rparr>,
    \<lparr>bytes = 640, pages = 1, batch = 32, cap = 284\<rparr>,
    \<lparr>bytes = 704, pages = 1, batch = 32, cap = 223\<rparr>,
    \<lparr>bytes = 768, pages = 1, batch = 32, cap = 198\<rparr>,
    \<lparr>bytes = 896, pages = 1, batch = 32, cap = 257\<rparr>,
    \<lparr>bytes = 1024, pages = 1, batch = 32, cap = 364\<rparr>,
    \<lparr>bytes = 1152, pages = 1, batch = 32, cap = 197\<rparr>,
    \<lparr>bytes = 1280, pages = 1, batch = 32, cap = 175\<rparr>,
    \<lparr>bytes = 1408, pages = 1, batch = 32, cap = 175\<rparr>,
    \<lparr>bytes = 1536, pages = 1, batch = 32, cap = 163\<rparr>,
    \<lparr>bytes = 1792, pages = 1, batch = 32, cap = 158\<rparr>,
    \<lparr>bytes = 1920, pages = 1, batch = 32, cap = 126\<rparr>,
    \<lparr>bytes = 2048, pages = 1, batch = 32, cap = 170\<rparr>,
    \<lparr>bytes = 2176, pages = 1, batch = 30, cap = 162\<rparr>,
    \<lparr>bytes = 2304, pages = 1, batch = 28, cap = 130\<rparr>,
    \<lparr>bytes = 2688, pages = 1, batch = 24, cap = 153\<rparr>,
    \<lparr>bytes = 3200, pages = 1, batch = 20, cap = 142\<rparr>,
    \<lparr>bytes = 3584, pages = 1, batch = 18, cap = 127\<rparr>,
    \<lparr>bytes = 4096, pages = 1, batch = 16, cap = 321\<rparr>,
    \<lparr>bytes = 4608, pages = 1, batch = 14, cap = 135\<rparr>,
    \<lparr>bytes = 5376, pages = 1, batch = 12, cap = 128\<rparr>,
    \<lparr>bytes = 6528, pages = 1, batch = 10, cap = 143\<rparr>,
    \<lparr>bytes = 8192, pages = 1, batch = 8, cap = 165\<rparr>,
    \<lparr>bytes = 9344, pages = 2, batch = 7, cap = 127\<rparr>,
    \<lparr>bytes = 10880, pages = 1, batch = 6, cap = 120\<rparr>,
    \<lparr>bytes = 13056, pages = 2, batch = 5, cap = 122\<rparr>,
    \<lparr>bytes = 13952, pages = 3, batch = 4, cap = 116\<rparr>,
    \<lparr>bytes = 16384, pages = 1, batch = 4, cap = 146\<rparr>,
    \<lparr>bytes = 19072, pages = 3, batch = 3, cap = 125\<rparr>,
    \<lparr>bytes = 21760, pages = 2, batch = 3, cap = 117\<rparr>,
    \<lparr>bytes = 24576, pages = 3, batch = 2, cap = 117\<rparr>,
    \<lparr>bytes = 28672, pages = 7, batch = 2, cap = 121\<rparr>,
    \<lparr>bytes = 32768, pages = 1, batch = 2, cap = 135\<rparr>,
    \<lparr>bytes = 38144, pages = 5, batch = 2, cap = 117\<rparr>,
    \<lparr>bytes = 40960, pages = 4, batch = 2, cap = 114\<rparr>,
    \<lparr>bytes = 49152, pages = 3, batch = 2, cap = 115\<rparr>,
    \<lparr>bytes = 57344, pages = 7, batch = 2, cap = 117\<rparr>,
    \<lparr>bytes = 65536, pages = 2, batch = 2, cap = 123\<rparr>,
    \<lparr>bytes = 81920, pages = 5, batch = 2, cap = 118\<rparr>,
    \<lparr>bytes = 98304, pages = 3, batch = 2, cap = 115\<rparr>,
    \<lparr>bytes = 114688, pages = 7, batch = 2, cap = 115\<rparr>,
    \<lparr>bytes = 131072, pages = 4, batch = 2, cap = 142\<rparr>,
    \<lparr>bytes = 163840, pages = 5, batch = 2, cap = 115\<rparr>,
    \<lparr>bytes = 196608, pages = 6, batch = 2, cap = 115\<rparr>,
    \<lparr>bytes = 229376, pages = 7, batch = 2, cap = 113\<rparr>,
    \<lparr>bytes = 262144, pages = 8, batch = 2, cap = 117\<rparr>]"

text \<open>
  Lines 226--310: the arm of the outer \<^verbatim>\<open>#if\<close> (default new alignment at most 8),
  \<^verbatim>\<open>TCMALLOC_PAGE_SHIFT == 18\<close>; 85 rows, the sentinel row included.
\<close>

definition kSizeClassesList_align8_shift18 :: "SizeClassInfo list" where
  "kSizeClassesList_align8_shift18 = [
    \<lparr>bytes = 0, pages = 0, batch = 0, cap = 0\<rparr>,
    \<lparr>bytes = 8, pages = 1, batch = 32, cap = 1912\<rparr>,
    \<lparr>bytes = 16, pages = 1, batch = 32, cap = 1912\<rparr>,
    \<lparr>bytes = 32, pages = 1, batch = 32, cap = 1912\<rparr>,
    \<lparr>bytes = 64, pages = 1, batch = 32, cap = 1918\<rparr>,
    \<lparr>bytes = 72, pages = 1, batch = 32, cap = 1912\<rparr>,
    \<lparr>bytes = 80, pages = 1, batch = 32, cap = 1691\<rparr>,
    \<lparr>bytes = 88, pages = 1, batch = 32, cap = 632\<rparr>,
    \<lparr>bytes = 96, pages = 1, batch = 32, cap = 898\<rparr>,
    \<lparr>bytes = 104, pages = 1, batch = 32, cap = 510\<rparr>,
    \<lparr>bytes = 112, pages = 1, batch = 32, cap = 758\<rparr>,
    \<lparr>bytes = 128, pages = 1, batch = 32, cap = 1197\<rparr>,
    \<lparr>bytes = 144, pages = 1, batch = 32, cap = 992\<rparr>,
    \<lparr>bytes = 160, pages = 1, batch = 32, cap = 841\<rparr>,
    \<lparr>bytes = 176, pages = 1, batch = 32, cap = 348\<rparr>,
    \<lparr>bytes = 192, pages = 1, batch = 32, cap = 415\<rparr>,
    \<lparr>bytes = 208, pages = 1, batch = 32, cap = 299\<rparr>,
    \<lparr>bytes = 232, pages = 1, batch = 32, cap = 623\<rparr>,
    \<lparr>bytes = 256, pages = 1, batch = 32, cap = 737\<rparr>,
    \<lparr>bytes = 280, pages = 1, batch = 32, cap = 365\<rparr>,
    \<lparr>bytes = 312, pages = 1, batch = 32, cap = 538\<rparr>,
    \<lparr>bytes = 336, pages = 1, batch = 32, cap = 448\<rparr>,
    \<lparr>bytes = 376, pages = 1, batch = 32, cap = 220\<rparr>,
    \<lparr>bytes = 416, pages = 1, batch = 32, cap = 295\<rparr>,
    \<lparr>bytes = 472, pages = 1, batch = 32, cap = 275\<rparr>,
    \<lparr>bytes = 512, pages = 1, batch = 32, cap = 339\<rparr>,
    \<lparr>bytes = 576, pages = 1, batch = 32, cap = 266\<rparr>,
    \<lparr>bytes = 704, pages = 1, batch = 32, cap = 320\<rparr>,
    \<lparr>bytes = 768, pages = 1, batch = 32, cap = 181\<rparr>,
    \<lparr>bytes = 896, pages = 1, batch = 32, cap = 212\<rparr>,
    \<lparr>bytes = 1024, pages = 1, batch = 32, cap = 340\<rparr>,
    \<lparr>bytes = 1152, pages = 1, batch = 32, cap = 194\<rparr>,
    \<lparr>bytes = 1280, pages = 1, batch = 32, cap = 170\<rparr>,
    \<lparr>bytes = 1408, pages = 1, batch = 32, cap = 148\<rparr>,
    \<lparr>bytes = 1664, pages = 1, batch = 32, cap = 258\<rparr>,
    \<lparr>bytes = 1920, pages = 1, batch = 32, cap = 212\<rparr>,
    \<lparr>bytes = 2048, pages = 1, batch = 32, cap = 183\<rparr>,
    \<lparr>bytes = 2176, pages = 1, batch = 30, cap = 312\<rparr>,
    \<lparr>bytes = 2304, pages = 1, batch = 28, cap = 153\<rparr>,
    \<lparr>bytes = 2560, pages = 1, batch = 25, cap = 146\<rparr>,
    \<lparr>bytes = 2816, pages = 1, batch = 23, cap = 129\<rparr>,
    \<lparr>bytes = 3072, pages = 1, batch = 21, cap = 130\<rparr>,
    \<lparr>bytes = 3328, pages = 1, batch = 19, cap = 147\<rparr>,
    \<lparr>bytes = 3584, pages = 1, batch = 18, cap = 126\<rparr>,
    \<lparr>bytes = 3840, pages = 1, batch = 17, cap = 126\<rparr>,
    \<lparr>bytes = 4096, pages = 1, batch = 16, cap = 273\<rparr>,
    \<lparr>bytes = 4224, pages = 1, batch = 15, cap = 132\<rparr>,
    \<lparr>bytes = 4736, pages = 1, batch = 13, cap = 136\<rparr>,
    \<lparr>bytes = 5248, pages = 1, batch = 12, cap = 147\<rparr>,
    \<lparr>bytes = 5760, pages = 1, batch = 11, cap = 127\<rparr>,
    \<lparr>bytes = 6528, pages = 1, batch = 10, cap = 134\<rparr>,
    \<lparr>bytes = 7168, pages = 1, batch = 9, cap = 123\<rparr>,
    \<lparr>bytes = 8192, pages = 1, batch = 8, cap = 167\<rparr>,
    \<lparr>bytes = 9344, pages = 1, batch = 7, cap = 130\<rparr>,
    \<lparr>bytes = 10880, pages = 1, batch = 6, cap = 126\<rparr>,
    \<lparr>bytes = 11904, pages = 1, batch = 5, cap = 129\<rparr>,
    \<lparr>bytes = 13056, pages = 1, batch = 5, cap = 126\<rparr>,
    \<lparr>bytes = 13696, pages = 1, batch = 4, cap = 120\<rparr>,
    \<lparr>bytes = 14464, pages = 1, batch = 4, cap = 121\<rparr>,
    \<lparr>bytes = 15360, pages = 1, batch = 4, cap = 121\<rparr>,
    \<lparr>bytes = 16384, pages = 1, batch = 4, cap = 139\<rparr>,
    \<lparr>bytes = 17408, pages = 1, batch = 3, cap = 123\<rparr>,
    \<lparr>bytes = 18688, pages = 1, batch = 3, cap = 125\<rparr>,
    \<lparr>bytes = 20096, pages = 1, batch = 3, cap = 120\<rparr>,
    \<lparr>bytes = 21760, pages = 1, batch = 3, cap = 121\<rparr>,
    \<lparr>bytes = 23808, pages = 1, batch = 2, cap = 125\<rparr>,
    \<lparr>bytes = 26112, pages = 1, batch = 2, cap = 122\<rparr>,
    \<lparr>bytes = 29056, pages = 1, batch = 2, cap = 120\<rparr>,
    \<lparr>bytes = 32768, pages = 1, batch = 2, cap = 170\<rparr>,
    \<lparr>bytes = 37376, pages = 1, batch = 2, cap = 122\<rparr>,
    \<lparr>bytes = 43648, pages = 1, batch = 2, cap = 120\<rparr>,
    \<lparr>bytes = 45568, pages = 2, batch = 2, cap = 119\<rparr>,
    \<lparr>bytes = 52352, pages = 1, batch = 2, cap = 120\<rparr>,
    \<lparr>bytes = 56064, pages = 2, batch = 2, cap = 119\<rparr>,
    \<lparr>bytes = 65536, pages = 1, batch = 2, cap = 122\<rparr>,
    \<lparr>bytes = 74880, pages = 2, batch = 2, cap = 120\<rparr>,
    \<lparr>bytes = 87296, pages = 1, batch = 2, cap = 120\<rparr>,
    \<lparr>bytes = 104832, pages = 2, batch = 2, cap = 120\<rparr>,
    \<lparr>bytes = 112256, pages = 3, batch = 2, cap = 119\<rparr>,
    \<lparr>bytes = 131072, pages = 1, batch = 2, cap = 120\<rparr>,
    \<lparr>bytes = 149760, pages = 3, batch = 2, cap = 119\<rparr>,
    \<lparr>bytes = 174720, pages = 2, batch = 2, cap = 119\<rparr>,
    \<lparr>bytes = 196608, pages = 3, batch = 2, cap = 119\<rparr>,
    \<lparr>bytes = 209664, pages = 4, batch = 2, cap = 119\<rparr>,
    \<lparr>bytes = 262144, pages = 1, batch = 2, cap = 122\<rparr>]"

text \<open>
  Lines 319--360: the arm of the outer \<^verbatim>\<open>#if\<close> (default new alignment at most 8),
  \<^verbatim>\<open>TCMALLOC_PAGE_SHIFT == 12\<close>; 42 rows, the sentinel row included.
\<close>

definition kSizeClassesList_align8_shift12 :: "SizeClassInfo list" where
  "kSizeClassesList_align8_shift12 = [
    \<lparr>bytes = 0, pages = 0, batch = 0, cap = 0\<rparr>,
    \<lparr>bytes = 8, pages = 1, batch = 32, cap = 2622\<rparr>,
    \<lparr>bytes = 16, pages = 1, batch = 32, cap = 2622\<rparr>,
    \<lparr>bytes = 32, pages = 1, batch = 32, cap = 2622\<rparr>,
    \<lparr>bytes = 64, pages = 1, batch = 32, cap = 2622\<rparr>,
    \<lparr>bytes = 72, pages = 1, batch = 32, cap = 927\<rparr>,
    \<lparr>bytes = 80, pages = 1, batch = 32, cap = 2622\<rparr>,
    \<lparr>bytes = 96, pages = 1, batch = 32, cap = 2160\<rparr>,
    \<lparr>bytes = 104, pages = 1, batch = 32, cap = 670\<rparr>,
    \<lparr>bytes = 112, pages = 1, batch = 32, cap = 1197\<rparr>,
    \<lparr>bytes = 128, pages = 1, batch = 32, cap = 1607\<rparr>,
    \<lparr>bytes = 144, pages = 1, batch = 32, cap = 1292\<rparr>,
    \<lparr>bytes = 160, pages = 1, batch = 32, cap = 1167\<rparr>,
    \<lparr>bytes = 176, pages = 1, batch = 32, cap = 563\<rparr>,
    \<lparr>bytes = 192, pages = 1, batch = 32, cap = 610\<rparr>,
    \<lparr>bytes = 208, pages = 1, batch = 32, cap = 394\<rparr>,
    \<lparr>bytes = 224, pages = 1, batch = 32, cap = 551\<rparr>,
    \<lparr>bytes = 240, pages = 1, batch = 32, cap = 319\<rparr>,
    \<lparr>bytes = 256, pages = 1, batch = 32, cap = 598\<rparr>,
    \<lparr>bytes = 272, pages = 1, batch = 32, cap = 260\<rparr>,
    \<lparr>bytes = 288, pages = 1, batch = 32, cap = 301\<rparr>,
    \<lparr>bytes = 336, pages = 1, batch = 32, cap = 579\<rparr>,
    \<lparr>bytes = 408, pages = 1, batch = 32, cap = 250\<rparr>,
    \<lparr>bytes = 448, pages = 1, batch = 32, cap = 225\<rparr>,
    \<lparr>bytes = 512, pages = 1, batch = 32, cap = 739\<rparr>,
    \<lparr>bytes = 576, pages = 2, batch = 32, cap = 338\<rparr>,
    \<lparr>bytes = 640, pages = 2, batch = 32, cap = 188\<rparr>,
    \<lparr>bytes = 768, pages = 2, batch = 32, cap = 334\<rparr>,
    \<lparr>bytes = 896, pages = 2, batch = 32, cap = 287\<rparr>,
    \<lparr>bytes = 1024, pages = 2, batch = 32, cap = 964\<rparr>,
    \<lparr>bytes = 1152, pages = 3, batch = 32, cap = 210\<rparr>,
    \<lparr>bytes = 1280, pages = 3, batch = 32, cap = 164\<rparr>,
    \<lparr>bytes = 1536, pages = 3, batch = 32, cap = 204\<rparr>,
    \<lparr>bytes = 2048, pages = 4, batch = 32, cap = 530\<rparr>,
    \<lparr>bytes = 2304, pages = 4, batch = 28, cap = 191\<rparr>,
    \<lparr>bytes = 2688, pages = 4, batch = 24, cap = 181\<rparr>,
    \<lparr>bytes = 3200, pages = 4, batch = 20, cap = 166\<rparr>,
    \<lparr>bytes = 4096, pages = 4, batch = 16, cap = 624\<rparr>,
    \<lparr>bytes = 4736, pages = 5, batch = 13, cap = 213\<rparr>,
    \<lparr>bytes = 6144, pages = 3, batch = 10, cap = 168\<rparr>,
    \<lparr>bytes = 7168, pages = 7, batch = 9, cap = 169\<rparr>,
    \<lparr>bytes = 8192, pages = 4, batch = 8, cap = 236\<rparr>]"

text \<open>
  Lines 373--457: the arm of the outer \<^verbatim>\<open>#else\<close>,
  \<^verbatim>\<open>TCMALLOC_PAGE_SHIFT == 13\<close>; 85 rows, the sentinel row included.
\<close>

definition kSizeClassesList_align16_shift13 :: "SizeClassInfo list" where
  "kSizeClassesList_align16_shift13 = [
    \<lparr>bytes = 0, pages = 0, batch = 0, cap = 0\<rparr>,
    \<lparr>bytes = 8, pages = 1, batch = 32, cap = 2369\<rparr>,
    \<lparr>bytes = 16, pages = 1, batch = 32, cap = 2369\<rparr>,
    \<lparr>bytes = 32, pages = 1, batch = 32, cap = 2369\<rparr>,
    \<lparr>bytes = 64, pages = 1, batch = 32, cap = 2369\<rparr>,
    \<lparr>bytes = 80, pages = 1, batch = 32, cap = 2369\<rparr>,
    \<lparr>bytes = 96, pages = 1, batch = 32, cap = 1596\<rparr>,
    \<lparr>bytes = 112, pages = 1, batch = 32, cap = 911\<rparr>,
    \<lparr>bytes = 128, pages = 1, batch = 32, cap = 1035\<rparr>,
    \<lparr>bytes = 144, pages = 1, batch = 32, cap = 699\<rparr>,
    \<lparr>bytes = 160, pages = 1, batch = 32, cap = 586\<rparr>,
    \<lparr>bytes = 176, pages = 1, batch = 32, cap = 333\<rparr>,
    \<lparr>bytes = 192, pages = 1, batch = 32, cap = 418\<rparr>,
    \<lparr>bytes = 208, pages = 1, batch = 32, cap = 296\<rparr>,
    \<lparr>bytes = 224, pages = 1, batch = 32, cap = 264\<rparr>,
    \<lparr>bytes = 240, pages = 1, batch = 32, cap = 251\<rparr>,
    \<lparr>bytes = 256, pages = 1, batch = 32, cap = 507\<rparr>,
    \<lparr>bytes = 272, pages = 1, batch = 32, cap = 231\<rparr>,
    \<lparr>bytes = 288, pages = 1, batch = 32, cap = 264\<rparr>,
    \<lparr>bytes = 304, pages = 1, batch = 32, cap = 205\<rparr>,
    \<lparr>bytes = 320, pages = 1, batch = 32, cap = 250\<rparr>,
    \<lparr>bytes = 336, pages = 1, batch = 32, cap = 269\<rparr>,
    \<lparr>bytes = 352, pages = 1, batch = 32, cap = 193\<rparr>,
    \<lparr>bytes = 368, pages = 1, batch = 32, cap = 173\<rparr>,
    \<lparr>bytes = 384, pages = 1, batch = 32, cap = 209\<rparr>,
    \<lparr>bytes = 400, pages = 1, batch = 32, cap = 190\<rparr>,
    \<lparr>bytes = 416, pages = 1, batch = 32, cap = 187\<rparr>,
    \<lparr>bytes = 448, pages = 1, batch = 32, cap = 236\<rparr>,
    \<lparr>bytes = 480, pages = 1, batch = 32, cap = 198\<rparr>,
    \<lparr>bytes = 512, pages = 1, batch = 32, cap = 356\<rparr>,
    \<lparr>bytes = 576, pages = 1, batch = 32, cap = 241\<rparr>,
    \<lparr>bytes = 640, pages = 1, batch = 32, cap = 213\<rparr>,
    \<lparr>bytes = 704, pages = 1, batch = 32, cap = 193\<rparr>,
    \<lparr>bytes = 768, pages = 1, batch = 32, cap = 191\<rparr>,
    \<lparr>bytes = 896, pages = 1, batch = 32, cap = 205\<rparr>,
    \<lparr>bytes = 1024, pages = 1, batch = 32, cap = 332\<rparr>,
    \<lparr>bytes = 1152, pages = 2, batch = 32, cap = 197\<rparr>,
    \<lparr>bytes = 1280, pages = 2, batch = 32, cap = 180\<rparr>,
    \<lparr>bytes = 1408, pages = 2, batch = 32, cap = 172\<rparr>,
    \<lparr>bytes = 1536, pages = 2, batch = 32, cap = 178\<rparr>,
    \<lparr>bytes = 1792, pages = 2, batch = 32, cap = 175\<rparr>,
    \<lparr>bytes = 2048, pages = 2, batch = 32, cap = 204\<rparr>,
    \<lparr>bytes = 2304, pages = 2, batch = 28, cap = 171\<rparr>,
    \<lparr>bytes = 2688, pages = 2, batch = 24, cap = 165\<rparr>,
    \<lparr>bytes = 2816, pages = 3, batch = 23, cap = 154\<rparr>,
    \<lparr>bytes = 3200, pages = 2, batch = 20, cap = 160\<rparr>,
    \<lparr>bytes = 3456, pages = 3, batch = 18, cap = 153\<rparr>,
    \<lparr>bytes = 3584, pages = 4, batch = 18, cap = 152\<rparr>,
    \<lparr>bytes = 4096, pages = 1, batch = 16, cap = 312\<rparr>,
    \<lparr>bytes = 4736, pages = 3, batch = 13, cap = 158\<rparr>,
    \<lparr>bytes = 5376, pages = 2, batch = 12, cap = 153\<rparr>,
    \<lparr>bytes = 6144, pages = 3, batch = 10, cap = 158\<rparr>,
    \<lparr>bytes = 6528, pages = 4, batch = 10, cap = 150\<rparr>,
    \<lparr>bytes = 7168, pages = 7, batch = 9, cap = 152\<rparr>,
    \<lparr>bytes = 8192, pages = 1, batch = 8, cap = 207\<rparr>,
    \<lparr>bytes = 9472, pages = 5, batch = 6, cap = 154\<rparr>,
    \<lparr>bytes = 10240, pages = 4, batch = 6, cap = 150\<rparr>,
    \<lparr>bytes = 12288, pages = 3, batch = 5, cap = 154\<rparr>,
    \<lparr>bytes = 13568, pages = 5, batch = 4, cap = 150\<rparr>,
    \<lparr>bytes = 14336, pages = 7, batch = 4, cap = 149\<rparr>,
    \<lparr>bytes = 16384, pages = 2, batch = 4, cap = 160\<rparr>,
    \<lparr>bytes = 20480, pages = 5, batch = 3, cap = 153\<rparr>,
    \<lparr>bytes = 24576, pages = 3, batch = 2, cap = 152\<rparr>,
    \<lparr>bytes = 28672, pages = 7, batch = 2, cap = 152\<rparr>,
    \<lparr>bytes = 32768, pages = 4, batch = 2, cap = 161\<rparr>,
    \<lparr>bytes = 40960, pages = 5, batch = 2, cap = 150\<rparr>,
    \<lparr>bytes = 49152, pages = 6, batch = 2, cap = 149\<rparr>,
    \<lparr>bytes = 57344, pages = 7, batch = 2, cap = 149\<rparr>,
    \<lparr>bytes = 65536, pages = 8, batch = 2, cap = 153\<rparr>,
    \<lparr>bytes = 73728, pages = 9, batch = 2, cap = 150\<rparr>,
    \<lparr>bytes = 81920, pages = 10, batch = 2, cap = 149\<rparr>,
    \<lparr>bytes = 90112, pages = 11, batch = 2, cap = 148\<rparr>,
    \<lparr>bytes = 98304, pages = 12, batch = 2, cap = 149\<rparr>,
    \<lparr>bytes = 106496, pages = 13, batch = 2, cap = 148\<rparr>,
    \<lparr>bytes = 114688, pages = 14, batch = 2, cap = 148\<rparr>,
    \<lparr>bytes = 131072, pages = 16, batch = 2, cap = 149\<rparr>,
    \<lparr>bytes = 139264, pages = 17, batch = 2, cap = 149\<rparr>,
    \<lparr>bytes = 147456, pages = 18, batch = 2, cap = 148\<rparr>,
    \<lparr>bytes = 155648, pages = 19, batch = 2, cap = 148\<rparr>,
    \<lparr>bytes = 172032, pages = 21, batch = 2, cap = 148\<rparr>,
    \<lparr>bytes = 188416, pages = 23, batch = 2, cap = 148\<rparr>,
    \<lparr>bytes = 204800, pages = 25, batch = 2, cap = 148\<rparr>,
    \<lparr>bytes = 221184, pages = 27, batch = 2, cap = 148\<rparr>,
    \<lparr>bytes = 237568, pages = 29, batch = 2, cap = 146\<rparr>,
    \<lparr>bytes = 262144, pages = 32, batch = 2, cap = 148\<rparr>]"

text \<open>
  Lines 466--542: the arm of the outer \<^verbatim>\<open>#else\<close>,
  \<^verbatim>\<open>TCMALLOC_PAGE_SHIFT == 15\<close>; 77 rows, the sentinel row included.
\<close>

definition kSizeClassesList_align16_shift15 :: "SizeClassInfo list" where
  "kSizeClassesList_align16_shift15 = [
    \<lparr>bytes = 0, pages = 0, batch = 0, cap = 0\<rparr>,
    \<lparr>bytes = 8, pages = 1, batch = 32, cap = 2249\<rparr>,
    \<lparr>bytes = 16, pages = 1, batch = 32, cap = 2249\<rparr>,
    \<lparr>bytes = 32, pages = 1, batch = 32, cap = 2249\<rparr>,
    \<lparr>bytes = 64, pages = 1, batch = 32, cap = 2249\<rparr>,
    \<lparr>bytes = 80, pages = 1, batch = 32, cap = 2249\<rparr>,
    \<lparr>bytes = 96, pages = 1, batch = 32, cap = 2100\<rparr>,
    \<lparr>bytes = 112, pages = 1, batch = 32, cap = 1138\<rparr>,
    \<lparr>bytes = 128, pages = 1, batch = 32, cap = 1563\<rparr>,
    \<lparr>bytes = 144, pages = 1, batch = 32, cap = 739\<rparr>,
    \<lparr>bytes = 160, pages = 1, batch = 32, cap = 615\<rparr>,
    \<lparr>bytes = 176, pages = 1, batch = 32, cap = 402\<rparr>,
    \<lparr>bytes = 192, pages = 1, batch = 32, cap = 509\<rparr>,
    \<lparr>bytes = 208, pages = 1, batch = 32, cap = 279\<rparr>,
    \<lparr>bytes = 224, pages = 1, batch = 32, cap = 359\<rparr>,
    \<lparr>bytes = 240, pages = 1, batch = 32, cap = 355\<rparr>,
    \<lparr>bytes = 256, pages = 1, batch = 32, cap = 666\<rparr>,
    \<lparr>bytes = 288, pages = 1, batch = 32, cap = 382\<rparr>,
    \<lparr>bytes = 304, pages = 1, batch = 32, cap = 234\<rparr>,
    \<lparr>bytes = 320, pages = 1, batch = 32, cap = 208\<rparr>,
    \<lparr>bytes = 352, pages = 1, batch = 32, cap = 355\<rparr>,
    \<lparr>bytes = 384, pages = 1, batch = 32, cap = 244\<rparr>,
    \<lparr>bytes = 400, pages = 1, batch = 32, cap = 176\<rparr>,
    \<lparr>bytes = 448, pages = 1, batch = 32, cap = 246\<rparr>,
    \<lparr>bytes = 480, pages = 1, batch = 32, cap = 254\<rparr>,
    \<lparr>bytes = 512, pages = 1, batch = 32, cap = 304\<rparr>,
    \<lparr>bytes = 576, pages = 1, batch = 32, cap = 234\<rparr>,
    \<lparr>bytes = 640, pages = 1, batch = 32, cap = 269\<rparr>,
    \<lparr>bytes = 704, pages = 1, batch = 32, cap = 222\<rparr>,
    \<lparr>bytes = 768, pages = 1, batch = 32, cap = 204\<rparr>,
    \<lparr>bytes = 832, pages = 1, batch = 32, cap = 208\<rparr>,
    \<lparr>bytes = 896, pages = 1, batch = 32, cap = 182\<rparr>,
    \<lparr>bytes = 1024, pages = 1, batch = 32, cap = 328\<rparr>,
    \<lparr>bytes = 1152, pages = 1, batch = 32, cap = 203\<rparr>,
    \<lparr>bytes = 1280, pages = 1, batch = 32, cap = 186\<rparr>,
    \<lparr>bytes = 1408, pages = 1, batch = 32, cap = 186\<rparr>,
    \<lparr>bytes = 1536, pages = 1, batch = 32, cap = 178\<rparr>,
    \<lparr>bytes = 1792, pages = 1, batch = 32, cap = 174\<rparr>,
    \<lparr>bytes = 1920, pages = 1, batch = 32, cap = 149\<rparr>,
    \<lparr>bytes = 2048, pages = 1, batch = 32, cap = 183\<rparr>,
    \<lparr>bytes = 2176, pages = 1, batch = 30, cap = 177\<rparr>,
    \<lparr>bytes = 2304, pages = 1, batch = 28, cap = 153\<rparr>,
    \<lparr>bytes = 2432, pages = 1, batch = 26, cap = 150\<rparr>,
    \<lparr>bytes = 2688, pages = 1, batch = 24, cap = 160\<rparr>,
    \<lparr>bytes = 2944, pages = 1, batch = 22, cap = 149\<rparr>,
    \<lparr>bytes = 3200, pages = 1, batch = 20, cap = 153\<rparr>,
    \<lparr>bytes = 3584, pages = 1, batch = 18, cap = 150\<rparr>,
    \<lparr>bytes = 4096, pages = 1, batch = 16, cap = 297\<rparr>,
    \<lparr>bytes = 4608, pages = 1, batch = 14, cap = 157\<rparr>,
    \<lparr>bytes = 5376, pages = 1, batch = 12, cap = 152\<rparr>,
    \<lparr>bytes = 6528, pages = 1, batch = 10, cap = 163\<rparr>,
    \<lparr>bytes = 7168, pages = 2, batch = 9, cap = 143\<rparr>,
    \<lparr>bytes = 8192, pages = 1, batch = 8, cap = 177\<rparr>,
    \<lparr>bytes = 9344, pages = 2, batch = 7, cap = 150\<rparr>,
    \<lparr>bytes = 10880, pages = 1, batch = 6, cap = 145\<rparr>,
    \<lparr>bytes = 13056, pages = 2, batch = 5, cap = 146\<rparr>,
    \<lparr>bytes = 13952, pages = 3, batch = 4, cap = 142\<rparr>,
    \<lparr>bytes = 16384, pages = 1, batch = 4, cap = 165\<rparr>,
    \<lparr>bytes = 19072, pages = 3, batch = 3, cap = 148\<rparr>,
    \<lparr>bytes = 21760, pages = 2, batch = 3, cap = 143\<rparr>,
    \<lparr>bytes = 24576, pages = 3, batch = 2, cap = 143\<rparr>,
    \<lparr>bytes = 26112, pages = 4, batch = 2, cap = 142\<rparr>,
    \<lparr>bytes = 28672, pages = 7, batch = 2, cap = 145\<rparr>,
    \<lparr>bytes = 32768, pages = 1, batch = 2, cap = 157\<rparr>,
    \<lparr>bytes = 38144, pages = 5, batch = 2, cap = 143\<rparr>,
    \<lparr>bytes = 40960, pages = 4, batch = 2, cap = 141\<rparr>,
    \<lparr>bytes = 49152, pages = 3, batch = 2, cap = 142\<rparr>,
    \<lparr>bytes = 57344, pages = 7, batch = 2, cap = 143\<rparr>,
    \<lparr>bytes = 65536, pages = 2, batch = 2, cap = 147\<rparr>,
    \<lparr>bytes = 81920, pages = 5, batch = 2, cap = 144\<rparr>,
    \<lparr>bytes = 98304, pages = 3, batch = 2, cap = 142\<rparr>,
    \<lparr>bytes = 114688, pages = 7, batch = 2, cap = 141\<rparr>,
    \<lparr>bytes = 131072, pages = 4, batch = 2, cap = 161\<rparr>,
    \<lparr>bytes = 163840, pages = 5, batch = 2, cap = 141\<rparr>,
    \<lparr>bytes = 196608, pages = 6, batch = 2, cap = 142\<rparr>,
    \<lparr>bytes = 229376, pages = 7, batch = 2, cap = 136\<rparr>,
    \<lparr>bytes = 262144, pages = 8, batch = 2, cap = 143\<rparr>]"

text \<open>
  Lines 551--638: the arm of the outer \<^verbatim>\<open>#else\<close>,
  \<^verbatim>\<open>TCMALLOC_PAGE_SHIFT == 18\<close>; 88 rows, the sentinel row included.
\<close>

definition kSizeClassesList_align16_shift18 :: "SizeClassInfo list" where
  "kSizeClassesList_align16_shift18 = [
    \<lparr>bytes = 0, pages = 0, batch = 0, cap = 0\<rparr>,
    \<lparr>bytes = 8, pages = 1, batch = 32, cap = 2368\<rparr>,
    \<lparr>bytes = 16, pages = 1, batch = 32, cap = 2368\<rparr>,
    \<lparr>bytes = 32, pages = 1, batch = 32, cap = 2368\<rparr>,
    \<lparr>bytes = 64, pages = 1, batch = 32, cap = 2371\<rparr>,
    \<lparr>bytes = 80, pages = 1, batch = 32, cap = 2368\<rparr>,
    \<lparr>bytes = 96, pages = 1, batch = 32, cap = 1006\<rparr>,
    \<lparr>bytes = 112, pages = 1, batch = 32, cap = 834\<rparr>,
    \<lparr>bytes = 128, pages = 1, batch = 32, cap = 871\<rparr>,
    \<lparr>bytes = 144, pages = 1, batch = 32, cap = 733\<rparr>,
    \<lparr>bytes = 160, pages = 1, batch = 32, cap = 633\<rparr>,
    \<lparr>bytes = 176, pages = 1, batch = 32, cap = 302\<rparr>,
    \<lparr>bytes = 192, pages = 1, batch = 32, cap = 347\<rparr>,
    \<lparr>bytes = 208, pages = 1, batch = 32, cap = 268\<rparr>,
    \<lparr>bytes = 224, pages = 1, batch = 32, cap = 466\<rparr>,
    \<lparr>bytes = 256, pages = 1, batch = 32, cap = 584\<rparr>,
    \<lparr>bytes = 288, pages = 1, batch = 32, cap = 446\<rparr>,
    \<lparr>bytes = 320, pages = 1, batch = 32, cap = 342\<rparr>,
    \<lparr>bytes = 336, pages = 1, batch = 32, cap = 321\<rparr>,
    \<lparr>bytes = 368, pages = 1, batch = 32, cap = 199\<rparr>,
    \<lparr>bytes = 400, pages = 1, batch = 32, cap = 257\<rparr>,
    \<lparr>bytes = 448, pages = 1, batch = 32, cap = 259\<rparr>,
    \<lparr>bytes = 480, pages = 1, batch = 32, cap = 188\<rparr>,
    \<lparr>bytes = 512, pages = 1, batch = 32, cap = 275\<rparr>,
    \<lparr>bytes = 576, pages = 1, batch = 32, cap = 246\<rparr>,
    \<lparr>bytes = 640, pages = 1, batch = 32, cap = 235\<rparr>,
    \<lparr>bytes = 704, pages = 1, batch = 32, cap = 197\<rparr>,
    \<lparr>bytes = 768, pages = 1, batch = 32, cap = 190\<rparr>,
    \<lparr>bytes = 896, pages = 1, batch = 32, cap = 210\<rparr>,
    \<lparr>bytes = 1024, pages = 1, batch = 32, cap = 296\<rparr>,
    \<lparr>bytes = 1152, pages = 1, batch = 32, cap = 198\<rparr>,
    \<lparr>bytes = 1280, pages = 1, batch = 32, cap = 182\<rparr>,
    \<lparr>bytes = 1408, pages = 1, batch = 32, cap = 168\<rparr>,
    \<lparr>bytes = 1536, pages = 1, batch = 32, cap = 168\<rparr>,
    \<lparr>bytes = 1664, pages = 1, batch = 32, cap = 221\<rparr>,
    \<lparr>bytes = 1920, pages = 1, batch = 32, cap = 209\<rparr>,
    \<lparr>bytes = 2048, pages = 1, batch = 32, cap = 191\<rparr>,
    \<lparr>bytes = 2176, pages = 1, batch = 30, cap = 278\<rparr>,
    \<lparr>bytes = 2304, pages = 1, batch = 28, cap = 171\<rparr>,
    \<lparr>bytes = 2560, pages = 1, batch = 25, cap = 165\<rparr>,
    \<lparr>bytes = 2816, pages = 1, batch = 23, cap = 155\<rparr>,
    \<lparr>bytes = 3072, pages = 1, batch = 21, cap = 155\<rparr>,
    \<lparr>bytes = 3328, pages = 1, batch = 19, cap = 167\<rparr>,
    \<lparr>bytes = 3584, pages = 1, batch = 18, cap = 153\<rparr>,
    \<lparr>bytes = 3840, pages = 1, batch = 17, cap = 153\<rparr>,
    \<lparr>bytes = 4096, pages = 1, batch = 16, cap = 251\<rparr>,
    \<lparr>bytes = 4224, pages = 1, batch = 15, cap = 156\<rparr>,
    \<lparr>bytes = 4736, pages = 1, batch = 13, cap = 160\<rparr>,
    \<lparr>bytes = 5120, pages = 1, batch = 12, cap = 158\<rparr>,
    \<lparr>bytes = 5632, pages = 1, batch = 11, cap = 160\<rparr>,
    \<lparr>bytes = 6144, pages = 1, batch = 10, cap = 153\<rparr>,
    \<lparr>bytes = 6528, pages = 1, batch = 10, cap = 154\<rparr>,
    \<lparr>bytes = 7168, pages = 1, batch = 9, cap = 150\<rparr>,
    \<lparr>bytes = 8192, pages = 1, batch = 8, cap = 180\<rparr>,
    \<lparr>bytes = 8704, pages = 1, batch = 7, cap = 150\<rparr>,
    \<lparr>bytes = 9344, pages = 1, batch = 7, cap = 153\<rparr>,
    \<lparr>bytes = 10368, pages = 1, batch = 6, cap = 151\<rparr>,
    \<lparr>bytes = 11392, pages = 1, batch = 5, cap = 154\<rparr>,
    \<lparr>bytes = 12416, pages = 1, batch = 5, cap = 153\<rparr>,
    \<lparr>bytes = 13056, pages = 1, batch = 5, cap = 150\<rparr>,
    \<lparr>bytes = 13696, pages = 1, batch = 4, cap = 149\<rparr>,
    \<lparr>bytes = 14464, pages = 1, batch = 4, cap = 149\<rparr>,
    \<lparr>bytes = 15360, pages = 1, batch = 4, cap = 149\<rparr>,
    \<lparr>bytes = 16384, pages = 1, batch = 4, cap = 161\<rparr>,
    \<lparr>bytes = 17408, pages = 1, batch = 3, cap = 150\<rparr>,
    \<lparr>bytes = 18688, pages = 1, batch = 3, cap = 151\<rparr>,
    \<lparr>bytes = 20096, pages = 1, batch = 3, cap = 149\<rparr>,
    \<lparr>bytes = 21760, pages = 1, batch = 3, cap = 149\<rparr>,
    \<lparr>bytes = 23808, pages = 1, batch = 2, cap = 151\<rparr>,
    \<lparr>bytes = 26112, pages = 1, batch = 2, cap = 150\<rparr>,
    \<lparr>bytes = 29056, pages = 1, batch = 2, cap = 149\<rparr>,
    \<lparr>bytes = 32768, pages = 1, batch = 2, cap = 182\<rparr>,
    \<lparr>bytes = 37376, pages = 1, batch = 2, cap = 150\<rparr>,
    \<lparr>bytes = 43648, pages = 1, batch = 2, cap = 149\<rparr>,
    \<lparr>bytes = 45568, pages = 2, batch = 2, cap = 148\<rparr>,
    \<lparr>bytes = 52352, pages = 1, batch = 2, cap = 149\<rparr>,
    \<lparr>bytes = 56064, pages = 2, batch = 2, cap = 148\<rparr>,
    \<lparr>bytes = 65536, pages = 1, batch = 2, cap = 150\<rparr>,
    \<lparr>bytes = 74880, pages = 2, batch = 2, cap = 148\<rparr>,
    \<lparr>bytes = 87296, pages = 1, batch = 2, cap = 148\<rparr>,
    \<lparr>bytes = 104832, pages = 2, batch = 2, cap = 148\<rparr>,
    \<lparr>bytes = 112256, pages = 3, batch = 2, cap = 148\<rparr>,
    \<lparr>bytes = 131072, pages = 1, batch = 2, cap = 148\<rparr>,
    \<lparr>bytes = 149760, pages = 3, batch = 2, cap = 148\<rparr>,
    \<lparr>bytes = 174720, pages = 2, batch = 2, cap = 148\<rparr>,
    \<lparr>bytes = 196608, pages = 3, batch = 2, cap = 148\<rparr>,
    \<lparr>bytes = 209664, pages = 4, batch = 2, cap = 148\<rparr>,
    \<lparr>bytes = 262144, pages = 1, batch = 2, cap = 150\<rparr>]"

text \<open>
  Lines 647--691: the arm of the outer \<^verbatim>\<open>#else\<close>,
  \<^verbatim>\<open>TCMALLOC_PAGE_SHIFT == 12\<close>; 45 rows, the sentinel row included.
\<close>

definition kSizeClassesList_align16_shift12 :: "SizeClassInfo list" where
  "kSizeClassesList_align16_shift12 = [
    \<lparr>bytes = 0, pages = 0, batch = 0, cap = 0\<rparr>,
    \<lparr>bytes = 8, pages = 1, batch = 32, cap = 2906\<rparr>,
    \<lparr>bytes = 16, pages = 1, batch = 32, cap = 2906\<rparr>,
    \<lparr>bytes = 32, pages = 1, batch = 32, cap = 2910\<rparr>,
    \<lparr>bytes = 64, pages = 1, batch = 32, cap = 2906\<rparr>,
    \<lparr>bytes = 80, pages = 1, batch = 32, cap = 2906\<rparr>,
    \<lparr>bytes = 96, pages = 1, batch = 32, cap = 1880\<rparr>,
    \<lparr>bytes = 112, pages = 1, batch = 32, cap = 1490\<rparr>,
    \<lparr>bytes = 128, pages = 1, batch = 32, cap = 1411\<rparr>,
    \<lparr>bytes = 144, pages = 1, batch = 32, cap = 1144\<rparr>,
    \<lparr>bytes = 160, pages = 1, batch = 32, cap = 1037\<rparr>,
    \<lparr>bytes = 176, pages = 1, batch = 32, cap = 525\<rparr>,
    \<lparr>bytes = 192, pages = 1, batch = 32, cap = 563\<rparr>,
    \<lparr>bytes = 208, pages = 1, batch = 32, cap = 380\<rparr>,
    \<lparr>bytes = 224, pages = 1, batch = 32, cap = 512\<rparr>,
    \<lparr>bytes = 240, pages = 1, batch = 32, cap = 316\<rparr>,
    \<lparr>bytes = 256, pages = 1, batch = 32, cap = 553\<rparr>,
    \<lparr>bytes = 272, pages = 1, batch = 32, cap = 267\<rparr>,
    \<lparr>bytes = 288, pages = 1, batch = 32, cap = 301\<rparr>,
    \<lparr>bytes = 304, pages = 1, batch = 32, cap = 261\<rparr>,
    \<lparr>bytes = 336, pages = 1, batch = 32, cap = 457\<rparr>,
    \<lparr>bytes = 368, pages = 1, batch = 32, cap = 226\<rparr>,
    \<lparr>bytes = 400, pages = 1, batch = 32, cap = 207\<rparr>,
    \<lparr>bytes = 448, pages = 1, batch = 32, cap = 241\<rparr>,
    \<lparr>bytes = 512, pages = 1, batch = 32, cap = 673\<rparr>,
    \<lparr>bytes = 576, pages = 2, batch = 32, cap = 333\<rparr>,
    \<lparr>bytes = 640, pages = 2, batch = 32, cap = 206\<rparr>,
    \<lparr>bytes = 768, pages = 2, batch = 32, cap = 329\<rparr>,
    \<lparr>bytes = 896, pages = 2, batch = 32, cap = 290\<rparr>,
    \<lparr>bytes = 1024, pages = 2, batch = 32, cap = 864\<rparr>,
    \<lparr>bytes = 1152, pages = 3, batch = 32, cap = 224\<rparr>,
    \<lparr>bytes = 1280, pages = 3, batch = 32, cap = 184\<rparr>,
    \<lparr>bytes = 1536, pages = 3, batch = 32, cap = 219\<rparr>,
    \<lparr>bytes = 1792, pages = 4, batch = 32, cap = 193\<rparr>,
    \<lparr>bytes = 2048, pages = 4, batch = 32, cap = 483\<rparr>,
    \<lparr>bytes = 2304, pages = 4, batch = 28, cap = 207\<rparr>,
    \<lparr>bytes = 2688, pages = 4, batch = 24, cap = 199\<rparr>,
    \<lparr>bytes = 3200, pages = 4, batch = 20, cap = 187\<rparr>,
    \<lparr>bytes = 3584, pages = 7, batch = 18, cap = 184\<rparr>,
    \<lparr>bytes = 4096, pages = 4, batch = 16, cap = 570\<rparr>,
    \<lparr>bytes = 4736, pages = 5, batch = 13, cap = 226\<rparr>,
    \<lparr>bytes = 5376, pages = 4, batch = 12, cap = 182\<rparr>,
    \<lparr>bytes = 6144, pages = 3, batch = 10, cap = 186\<rparr>,
    \<lparr>bytes = 7168, pages = 7, batch = 9, cap = 190\<rparr>,
    \<lparr>bytes = 8192, pages = 4, batch = 8, cap = 246\<rparr>]"

subsection \<open>Build configuration, assertions and branch selection\<close>

text \<open>
  What the preprocessor and the assertions read: whether \<^verbatim>\<open>__cpp_aligned_new\<close> is
  defined, the value of \<^verbatim>\<open>__STDCPP_DEFAULT_NEW_ALIGNMENT__\<close>, the page shift, and the
  two constants \<^verbatim>\<open>kMaxSize\<close> and \<^verbatim>\<open>kNumBaseClasses\<close> that \<^verbatim>\<open>tcmalloc/common.h\<close>
  declares. That header lies outside this translation unit, so both constants are
  inputs of the model.
\<close>

record config =
  cpp_aligned_new :: bool
  STDCPP_DEFAULT_NEW_ALIGNMENT :: nat
  TCMALLOC_PAGE_SHIFT :: nat
  kMaxSize :: nat
  kNumBaseClasses :: nat

datatype error =
    kMaxSize_mismatch
  | kCount_exceeds_kNumBaseClasses
  | excess_initializers
  | Unsupported_TCMALLOC_PAGE_SHIFT

text \<open>The condition of the outer \<^verbatim>\<open>#if\<close> (line 47).\<close>

definition align8 :: "config \<Rightarrow> bool" where
  "align8 c = (cpp_aligned_new c \<and> STDCPP_DEFAULT_NEW_ALIGNMENT c \<le> 8)"

text \<open>
  \<^verbatim>\<open>SizeClassInfo kSizeClassesList[kCount] = { ... }\<close>: an array of exactly \<open>n\<close>
  elements. More initialisers than elements do not compile; fewer leave the
  remaining elements zero-initialised.
\<close>

definition zero_SizeClassInfo :: SizeClassInfo where
  "zero_SizeClassInfo = \<lparr>bytes = 0, pages = 0, batch = 0, cap = 0\<rparr>"

definition array_init :: "nat \<Rightarrow> SizeClassInfo list \<Rightarrow> error + SizeClassInfo list" where
  "array_init n inits =
     (if n < length inits then Inl excess_initializers
      else Inr (inits @ replicate (n - length inits) zero_SizeClassInfo))"

text \<open>
  One inner branch: \<^verbatim>\<open>static_assert(kMaxSize == m)\<close>, \<^verbatim>\<open>kCount = n\<close>,
  \<^verbatim>\<open>static_assert(kCount <= kNumBaseClasses)\<close>, then the array.
\<close>

definition branch :: "config \<Rightarrow> nat \<Rightarrow> nat \<Rightarrow> SizeClassInfo list \<Rightarrow> error + SizeClassInfo list" where
  "branch c m n inits =
     (if kMaxSize c \<noteq> m then Inl kMaxSize_mismatch
      else if \<not> n \<le> kNumBaseClasses c then Inl kCount_exceeds_kNumBaseClasses
      else array_init n inits)"

text \<open>\<^verbatim>\<open>kCount\<close> of the selected branch (lines 50, 140, 222, 315, 369, 462, 547, 643).\<close>

definition kCount :: "config \<Rightarrow> nat option" where
  "kCount c =
     (if align8 c then
        (if TCMALLOC_PAGE_SHIFT c = 13 then Some 82
         else if TCMALLOC_PAGE_SHIFT c = 15 then Some 74
         else if TCMALLOC_PAGE_SHIFT c = 18 then Some 85
         else if TCMALLOC_PAGE_SHIFT c = 12 then Some 42
         else None)
      else
        (if TCMALLOC_PAGE_SHIFT c = 13 then Some 85
         else if TCMALLOC_PAGE_SHIFT c = 15 then Some 77
         else if TCMALLOC_PAGE_SHIFT c = 18 then Some 88
         else if TCMALLOC_PAGE_SHIFT c = 12 then Some 45
         else None))"

text \<open>The table a build gets, or the reason it does not compile (lines 47--697).\<close>

definition kSizeClassesList :: "config \<Rightarrow> error + SizeClassInfo list" where
  "kSizeClassesList c =
     (if align8 c then
        (if TCMALLOC_PAGE_SHIFT c = 13 then branch c 262144 82 kSizeClassesList_align8_shift13
         else if TCMALLOC_PAGE_SHIFT c = 15 then branch c 262144 74 kSizeClassesList_align8_shift15
         else if TCMALLOC_PAGE_SHIFT c = 18 then branch c 262144 85 kSizeClassesList_align8_shift18
         else if TCMALLOC_PAGE_SHIFT c = 12 then branch c 8192 42 kSizeClassesList_align8_shift12
         else Inl Unsupported_TCMALLOC_PAGE_SHIFT)
      else
        (if TCMALLOC_PAGE_SHIFT c = 13 then branch c 262144 85 kSizeClassesList_align16_shift13
         else if TCMALLOC_PAGE_SHIFT c = 15 then branch c 262144 77 kSizeClassesList_align16_shift15
         else if TCMALLOC_PAGE_SHIFT c = 18 then branch c 262144 88 kSizeClassesList_align16_shift18
         else if TCMALLOC_PAGE_SHIFT c = 12 then branch c 8192 45 kSizeClassesList_align16_shift12
         else Inl Unsupported_TCMALLOC_PAGE_SHIFT))"

subsection \<open>Derived columns\<close>

text \<open>
  Modelled from the spec: \<^verbatim>\<open>kPageSize\<close> is declared in \<^verbatim>\<open>tcmalloc/common.h\<close>, which
  is not among the sources; the spec gives the page size as the power of two of
  the page shift (page size 8192 for \<^verbatim>\<open>TCMALLOC_PAGE_SHIFT == 13\<close>), and the source's
  own comment speaks of ``a single 8KiB page'' in that branch.
\<close>

definition page_size :: "config \<Rightarrow> nat" where
  "page_size c = 2 ^ TCMALLOC_PAGE_SHIFT c"

text \<open>
  The \<open>objs\<close> column of the source's comments, ``number of objects per span''
  (line 31): the span's bytes divided by the size of the class, rounded down.
  The sentinel row is listed with 0 objects; the division by its size 0 is
  written out as that 0.
\<close>

definition objects_per_span :: "config \<Rightarrow> SizeClassInfo \<Rightarrow> nat" where
  "objects_per_span c d =
     (if bytes d = 0 then 0 else (pages d * page_size c) div bytes d)"

text \<open>
  The \<open>inc\<close> column, ``increment from the previous size class'' (line 38), as
  a ratio: 1 is the 100.00\% of the comments. The first class after the sentinel
  is listed with 0.00\%, so a predecessor of size 0 gives 0.
\<close>

definition growth_pct :: "SizeClassInfo \<Rightarrow> SizeClassInfo \<Rightarrow> rat" where
  "growth_pct prev cur =
     (if bytes prev = 0 then 0
      else (of_nat (bytes cur) - of_nat (bytes prev)) / of_nat (bytes prev))"

text \<open>
  Modelled from the spec: the configuration's minimum alignment is not a constant
  of this file. The spec names two alignment classes, ``\<open>\<le>\<close>8-byte'' and
  ``\<open>>\<close>8-byte/aligned-new ABI''; they are the two arms of the outer \<^verbatim>\<open>#if\<close>,
  taken here as 8 and 16 bytes.
\<close>

definition min_alignment :: "config \<Rightarrow> nat" where
  "min_alignment c = (if align8 c then 8 else 16)"

subsection \<open>The checks of the spec's validator\<close>





section \<open>Facts about the selected table\<close>

subsection \<open>Which builds compile, and to which table\<close>

lemmas table_defs =
  kSizeClassesList_align8_shift13_def kSizeClassesList_align8_shift15_def
  kSizeClassesList_align8_shift18_def kSizeClassesList_align8_shift12_def
  kSizeClassesList_align16_shift13_def kSizeClassesList_align16_shift15_def
  kSizeClassesList_align16_shift18_def kSizeClassesList_align16_shift12_def

lemma table_lengths:
  "length kSizeClassesList_align8_shift13 = 82"
  "length kSizeClassesList_align8_shift15 = 74"
  "length kSizeClassesList_align8_shift18 = 85"
  "length kSizeClassesList_align8_shift12 = 42"
  "length kSizeClassesList_align16_shift13 = 85"
  "length kSizeClassesList_align16_shift15 = 77"
  "length kSizeClassesList_align16_shift18 = 88"
  "length kSizeClassesList_align16_shift12 = 45"
  by (simp_all add: table_defs)

lemma array_init_exact: "length inits = n \<Longrightarrow> array_init n inits = Inr inits"
  by (simp add: array_init_def)

lemma branch_Inr:
  "length inits = n \<Longrightarrow>
   branch c m n inits = Inr t \<longleftrightarrow> kMaxSize c = m \<and> n \<le> kNumBaseClasses c \<and> t = inits"
  by (auto simp: branch_def array_init_exact)

lemma kSizeClassesList_cases [consumes 1, case_names a8_13 a8_15 a8_18 a8_12 a16_13 a16_15 a16_18 a16_12]:
  assumes "kSizeClassesList c = Inr t"
  obtains
    "align8 c" "TCMALLOC_PAGE_SHIFT c = 13" "kMaxSize c = 262144" "82 \<le> kNumBaseClasses c"
      "t = kSizeClassesList_align8_shift13"
  | "align8 c" "TCMALLOC_PAGE_SHIFT c = 15" "kMaxSize c = 262144" "74 \<le> kNumBaseClasses c"
      "t = kSizeClassesList_align8_shift15"
  | "align8 c" "TCMALLOC_PAGE_SHIFT c = 18" "kMaxSize c = 262144" "85 \<le> kNumBaseClasses c"
      "t = kSizeClassesList_align8_shift18"
  | "align8 c" "TCMALLOC_PAGE_SHIFT c = 12" "kMaxSize c = 8192" "42 \<le> kNumBaseClasses c"
      "t = kSizeClassesList_align8_shift12"
  | "\<not> align8 c" "TCMALLOC_PAGE_SHIFT c = 13" "kMaxSize c = 262144" "85 \<le> kNumBaseClasses c"
      "t = kSizeClassesList_align16_shift13"
  | "\<not> align8 c" "TCMALLOC_PAGE_SHIFT c = 15" "kMaxSize c = 262144" "77 \<le> kNumBaseClasses c"
      "t = kSizeClassesList_align16_shift15"
  | "\<not> align8 c" "TCMALLOC_PAGE_SHIFT c = 18" "kMaxSize c = 262144" "88 \<le> kNumBaseClasses c"
      "t = kSizeClassesList_align16_shift18"
  | "\<not> align8 c" "TCMALLOC_PAGE_SHIFT c = 12" "kMaxSize c = 8192" "45 \<le> kNumBaseClasses c"
      "t = kSizeClassesList_align16_shift12"
  using assms unfolding kSizeClassesList_def
  by (auto simp: branch_Inr table_lengths split: if_splits)

lemma table_sizes_ascending:
  assumes "kSizeClassesList c = Inr t"
  shows "successively (\<lambda>x y. bytes x < bytes y) t"
  using assms by (cases rule: kSizeClassesList_cases) (simp_all add: table_defs)


subsection \<open>Row-by-row checks of the eight lists\<close>

text \<open>
  Each check is a linear pass over a literal list, evaluated by the simplifier
  for every branch.
\<close>

lemma table_sentinel:
  assumes "kSizeClassesList c = Inr t"
  shows "t \<noteq> [] \<and> t ! 0 = \<lparr>bytes = 0, pages = 0, batch = 0, cap = 0\<rparr>"
  using assms by (cases rule: kSizeClassesList_cases) (simp_all add: table_defs)

lemma table_length:
  assumes "kSizeClassesList c = Inr t"
  shows "kCount c = Some (length t) \<and> length t \<le> kNumBaseClasses c \<and> 42 \<le> length t"
  using assms by (cases rule: kSizeClassesList_cases) (simp_all add: table_lengths kCount_def)

lemma table_last:
  assumes "kSizeClassesList c = Inr t"
  shows "bytes (last t) = kMaxSize c"
  using assms by (cases rule: kSizeClassesList_cases) (simp_all add: table_defs)

lemma table_span_fits:
  assumes "kSizeClassesList c = Inr t"
  shows "list_all (\<lambda>d. 0 < bytes d \<and> bytes d \<le> pages d * page_size c) (tl t)"
  using assms by (cases rule: kSizeClassesList_cases) (simp_all add: table_defs page_size_def)

lemma table_batch_bound:
  assumes "kSizeClassesList c = Inr t"
  shows "list_all (\<lambda>d. batch d \<le> 32) (tl t)"
  using assms by (cases rule: kSizeClassesList_cases) (simp_all add: table_defs)

lemma table_batch_descending:
  assumes "kSizeClassesList c = Inr t"
  shows "successively (\<lambda>x y. batch y \<le> batch x) (tl t)"
  using assms by (cases rule: kSizeClassesList_cases) (simp_all add: table_defs)

lemma table_multiple_of_8:
  assumes "kSizeClassesList c = Inr t"
  shows "list_all (\<lambda>d. 8 dvd bytes d) (tl t)"
  using assms by (cases rule: kSizeClassesList_cases) (simp_all add: table_defs)

lemma table_multiple_of_16:
  assumes "kSizeClassesList c = Inr t" "\<not> align8 c"
  shows "list_all (\<lambda>d. 16 dvd bytes d) (tl (tl t))"
  using assms by (cases rule: kSizeClassesList_cases) (simp_all add: table_defs)

lemma table_growth:
  assumes "kSizeClassesList c = Inr t"
  shows "successively (\<lambda>x y. bytes y \<le> 2 * bytes x) (tl t)"
  using assms by (cases rule: kSizeClassesList_cases) (simp_all add: table_defs)

lemma table_first_classes:
  assumes "kSizeClassesList c = Inr t"
  shows "bytes (t ! 1) = 8 \<and> bytes (t ! 2) = 16 \<and> batch (t ! 1) = 32"
  using assms by (cases rule: kSizeClassesList_cases) (simp_all add: table_defs)

lemma kSizeClassesList_selects:
  "\<lbrakk>align8 c; TCMALLOC_PAGE_SHIFT c = 13; kMaxSize c = 262144; 82 \<le> kNumBaseClasses c\<rbrakk>
     \<Longrightarrow> kSizeClassesList c = Inr kSizeClassesList_align8_shift13"
  "\<lbrakk>align8 c; TCMALLOC_PAGE_SHIFT c = 15; kMaxSize c = 262144; 74 \<le> kNumBaseClasses c\<rbrakk>
     \<Longrightarrow> kSizeClassesList c = Inr kSizeClassesList_align8_shift15"
  "\<lbrakk>align8 c; TCMALLOC_PAGE_SHIFT c = 18; kMaxSize c = 262144; 85 \<le> kNumBaseClasses c\<rbrakk>
     \<Longrightarrow> kSizeClassesList c = Inr kSizeClassesList_align8_shift18"
  "\<lbrakk>align8 c; TCMALLOC_PAGE_SHIFT c = 12; kMaxSize c = 8192; 42 \<le> kNumBaseClasses c\<rbrakk>
     \<Longrightarrow> kSizeClassesList c = Inr kSizeClassesList_align8_shift12"
  "\<lbrakk>\<not> align8 c; TCMALLOC_PAGE_SHIFT c = 13; kMaxSize c = 262144; 85 \<le> kNumBaseClasses c\<rbrakk>
     \<Longrightarrow> kSizeClassesList c = Inr kSizeClassesList_align16_shift13"
  "\<lbrakk>\<not> align8 c; TCMALLOC_PAGE_SHIFT c = 15; kMaxSize c = 262144; 77 \<le> kNumBaseClasses c\<rbrakk>
     \<Longrightarrow> kSizeClassesList c = Inr kSizeClassesList_align16_shift15"
  "\<lbrakk>\<not> align8 c; TCMALLOC_PAGE_SHIFT c = 18; kMaxSize c = 262144; 88 \<le> kNumBaseClasses c\<rbrakk>
     \<Longrightarrow> kSizeClassesList c = Inr kSizeClassesList_align16_shift18"
  "\<lbrakk>\<not> align8 c; TCMALLOC_PAGE_SHIFT c = 12; kMaxSize c = 8192; 45 \<le> kNumBaseClasses c\<rbrakk>
     \<Longrightarrow> kSizeClassesList c = Inr kSizeClassesList_align16_shift12"
  by (simp_all add: kSizeClassesList_def branch_Inr table_lengths)

text \<open>
  A build whose page shift is none of 12, 13, 15 and 18 stops at \<^verbatim>\<open>#error\<close>, and one
  whose \<^verbatim>\<open>kMaxSize\<close> differs from the branch's constant stops at the assertion.
\<close>

lemma kSizeClassesList_unsupported:
  "TCMALLOC_PAGE_SHIFT c \<notin> {12, 13, 15, 18}
     \<Longrightarrow> kSizeClassesList c = Inl Unsupported_TCMALLOC_PAGE_SHIFT"
  by (simp add: kSizeClassesList_def)

subsection \<open>From passes over a list to statements about indices\<close>

lemma list_all_tl_nth:
  assumes "list_all P (tl xs)" "1 \<le> i" "i < length xs"
  shows "P (xs ! i)"
proof -
  from assms(2) obtain k where k: "i = Suc k" by (cases i) auto
  with assms(3) have "k < length (tl xs)" by simp
  with assms(1) have "P (tl xs ! k)" by (simp add: list_all_length)
  with \<open>k < length (tl xs)\<close> k show ?thesis by (simp add: nth_tl)
qed

lemma successively_tl_nth:
  assumes "successively P (tl xs)" "2 \<le> i" "i < length xs"
  shows "P (xs ! (i - 1)) (xs ! i)"
proof -
  from assms(2) obtain k where k: "i = Suc (Suc k)"
    by (cases i) (auto simp: Suc_le_eq elim: less_natE)
  with assms(3) have len: "Suc k < length (tl xs)" by simp
  with assms(1) have "P (tl xs ! k) (tl xs ! Suc k)" by (rule successively_nth)
  with len k show ?thesis by (simp add: nth_tl)
qed

lemma ascending_nth:
  assumes "successively (\<lambda>x y. f x < (f y :: nat)) xs" "i < j" "j < length xs"
  shows "f (xs ! i) < f (xs ! j)"
proof -
  have "transp (\<lambda>x y. f x < f y)" by (auto intro: transpI)
  with assms(1) have "sorted_wrt (\<lambda>x y. f x < f y) xs"
    by (simp add: successively_conv_sorted_wrt)
  with assms(2,3) show ?thesis by (simp add: sorted_wrt_iff_nth_less)
qed

lemma growth_pct_le_1:
  assumes "0 < bytes x" "bytes y \<le> 2 * bytes x"
  shows "growth_pct x y \<le> 1"
proof -
  have "(of_nat (bytes y) :: rat) \<le> of_nat (2 * bytes x)"
    using assms(2) by (simp only: of_nat_le_iff)
  then have "(of_nat (bytes y) :: rat) - of_nat (bytes x) \<le> of_nat (bytes x)" by simp
  moreover have "(0::rat) < of_nat (bytes x)" using assms(1) by simp
  ultimately have "((of_nat (bytes y) :: rat) - of_nat (bytes x)) / of_nat (bytes x) \<le> 1"
    by (simp add: divide_le_eq_1_pos)
  with assms(1) show ?thesis by (simp add: growth_pct_def)
qed

text \<open>
  The largest step between neighbouring classes. From class 2 on no class is more
  than twice its predecessor, and class 2 is exactly twice class 1 in every table:
  the growth is at most 1, the 100.00\% of the \<open>inc\<close> column, and reaches it.
\<close>

lemma growth_pct_at_most_1:
  assumes "kSizeClassesList c = Inr t" "2 \<le> i" "i < length t"
  shows "growth_pct (t ! (i - 1)) (t ! i) \<le> 1 \<and> growth_pct (t ! 1) (t ! 2) = 1"
proof -
  have top: "growth_pct (t ! 1) (t ! 2) = 1"
    using table_first_classes [OF assms(1)] by (simp add: growth_pct_def)
  have step: "bytes (t ! i) \<le> 2 * bytes (t ! (i - 1))"
    using table_growth [OF assms(1)] assms(2,3) by (rule successively_tl_nth)
  have "0 < bytes (t ! (i - 1))
      \<and> bytes (t ! (i - 1)) \<le> pages (t ! (i - 1)) * page_size c"
    using table_span_fits [OF assms(1)] by (rule list_all_tl_nth) (use assms(2,3) in simp_all)
  with step have "growth_pct (t ! (i - 1)) (t ! i) \<le> 1"
    by (simp add: growth_pct_le_1)
  with top show ?thesis by simp
qed

subsection \<open>The validator's passes do not read row 0\<close>






section \<open>The claims\<close>

text \<open>
  Throughout, ``every configuration's table'' is every \<open>t\<close> with
  \<open>kSizeClassesList c = Inr t\<close>: the array of a build that compiles. Class \<open>i\<close>
  is \<open>t ! i\<close>, and class 0 is the sentinel row.
\<close>

subsection \<open>C1: transfer batch against objects per span and the batch ceiling\<close>

text \<open>
  C1 says that for every class \<open>i \<ge> 1\<close> the stored \<open>batch\<close> is at most the class's
  objects per span and at most the global batch ceiling. The first bound does not
  hold. In the table for page shift 13 and alignment 8, row 51 (line 105) is
  \<^verbatim>\<open>{ 4096, 1, 16, 350}\<close>: one 8192-byte page holds 2 objects of 4096 bytes, and the
  batch is 16. The source's own \<open>objs\<close> column says 2 on that line.
\<close>

theorem transfer_batch_exceeds_objects_per_span:
  "kSizeClassesList
      \<lparr>cpp_aligned_new = True, STDCPP_DEFAULT_NEW_ALIGNMENT = 8,
      TCMALLOC_PAGE_SHIFT = 13, kMaxSize = 262144, kNumBaseClasses = 86\<rparr>
     = Inr kSizeClassesList_align8_shift13
   \<and> kSizeClassesList_align8_shift13 ! 51
       = \<lparr>bytes = 4096, pages = 1, batch = 16, cap = 350\<rparr>
   \<and> objects_per_span
      \<lparr>cpp_aligned_new = True, STDCPP_DEFAULT_NEW_ALIGNMENT = 8,
      TCMALLOC_PAGE_SHIFT = 13, kMaxSize = 262144, kNumBaseClasses = 86\<rparr>
      (kSizeClassesList_align8_shift13 ! 51) = 2
   \<and> \<not> batch (kSizeClassesList_align8_shift13 ! 51)
       \<le> objects_per_span
      \<lparr>cpp_aligned_new = True, STDCPP_DEFAULT_NEW_ALIGNMENT = 8,
      TCMALLOC_PAGE_SHIFT = 13, kMaxSize = 262144, kNumBaseClasses = 86\<rparr>
      (kSizeClassesList_align8_shift13 ! 51)"
proof -
  have row: "kSizeClassesList_align8_shift13 ! 51
      = \<lparr>bytes = 4096, pages = 1, batch = 16, cap = 350\<rparr>"
    by (simp add: kSizeClassesList_align8_shift13_def)
  have sel: "kSizeClassesList
      \<lparr>cpp_aligned_new = True, STDCPP_DEFAULT_NEW_ALIGNMENT = 8,
      TCMALLOC_PAGE_SHIFT = 13, kMaxSize = 262144, kNumBaseClasses = 86\<rparr>
    = Inr kSizeClassesList_align8_shift13"
    by (rule kSizeClassesList_selects(1)) (simp_all add: align8_def)
  show ?thesis
    using row by (simp add: sel objects_per_span_def page_size_def)
qed

text \<open>
  C1, amended: for every configuration's table and every class \<open>i \<ge> 1\<close>, the stored
  \<open>batch\<close> is at most the global batch ceiling, for every ceiling of at least 32,
  the batch of class 1 and the largest the tables store. The ceiling is a constant of
  \<^verbatim>\<open>tcmalloc/common.h\<close> and therefore a parameter here. No bound by the objects per
  span is stated.
\<close>

theorem transfer_batch_le_ceiling:
  assumes "kSizeClassesList c = Inr t" "1 \<le> i" "i < length t" "32 \<le> batch_ceiling"
  shows "batch (t ! i) \<le> batch_ceiling \<and> batch (t ! 1) = 32"
proof -
  have "batch (t ! i) \<le> 32"
    using table_batch_bound [OF assms(1)] assms(2,3) by (rule list_all_tl_nth)
  with assms(4) table_first_classes [OF assms(1)] show ?thesis by simp
qed

theorem transfer_batch_le_ceiling_witness:
  "kSizeClassesList
      \<lparr>cpp_aligned_new = True, STDCPP_DEFAULT_NEW_ALIGNMENT = 8,
      TCMALLOC_PAGE_SHIFT = 13, kMaxSize = 262144, kNumBaseClasses = 86\<rparr>
     = Inr kSizeClassesList_align8_shift13
   \<and> (1::nat) \<le> 51 \<and> 51 < length kSizeClassesList_align8_shift13 \<and> (32::nat) \<le> 32
   \<and> batch (kSizeClassesList_align8_shift13 ! 51) \<le> 32"
proof -
  have sel: "kSizeClassesList
      \<lparr>cpp_aligned_new = True, STDCPP_DEFAULT_NEW_ALIGNMENT = 8,
      TCMALLOC_PAGE_SHIFT = 13, kMaxSize = 262144, kNumBaseClasses = 86\<rparr>
    = Inr kSizeClassesList_align8_shift13"
    by (rule kSizeClassesList_selects(1)) (simp_all add: align8_def)
  have h: "(1::nat) \<le> 51" "51 < length kSizeClassesList_align8_shift13" "(32::nat) \<le> 32"
    by (simp_all add: table_lengths)
  from transfer_batch_le_ceiling [OF sel h] sel h show ?thesis by simp
qed

subsection \<open>C2: the table for page shift 13 and alignment 8\<close>

text \<open>
  C2: in the configuration with page size 8192 (\<^verbatim>\<open>TCMALLOC_PAGE_SHIFT == 13\<close>),
  alignment \<open>\<le> 8\<close> and maximum block size 262144, the table has exactly 82 entries
  including the sentinel, class 1 has \<open>bytes = 8\<close> and \<open>pages = 1\<close>, and the last
  class has \<open>bytes = 262144\<close> and \<open>pages = 32\<close>. Such a build compiles as soon as
  \<^verbatim>\<open>kNumBaseClasses\<close> admits the 82 classes.
\<close>

theorem page_shift_13_align8_table:
  assumes "align8 c" "TCMALLOC_PAGE_SHIFT c = 13" "kMaxSize c = 262144"
    "82 \<le> kNumBaseClasses c"
  shows "page_size c = 8192 \<and> kCount c = Some 82 \<and>
    (\<exists>t. kSizeClassesList c = Inr t \<and> length t = 82 \<and>
       t ! 0 = \<lparr>bytes = 0, pages = 0, batch = 0, cap = 0\<rparr> \<and>
       bytes (t ! 1) = 8 \<and> pages (t ! 1) = 1 \<and>
       last t = t ! 81 \<and> bytes (last t) = 262144 \<and> pages (last t) = 32)"
proof -
  have sel: "kSizeClassesList c = Inr kSizeClassesList_align8_shift13"
    using assms by (rule kSizeClassesList_selects(1))
  have rows:
    "kSizeClassesList_align8_shift13 ! 0 = \<lparr>bytes = 0, pages = 0, batch = 0, cap = 0\<rparr>"
    "kSizeClassesList_align8_shift13 ! 1 = \<lparr>bytes = 8, pages = 1, batch = 32, cap = 2024\<rparr>"
    "kSizeClassesList_align8_shift13 ! 81
       = \<lparr>bytes = 262144, pages = 32, batch = 2, cap = 128\<rparr>"
    "last kSizeClassesList_align8_shift13
       = \<lparr>bytes = 262144, pages = 32, batch = 2, cap = 128\<rparr>"
    by (simp_all add: kSizeClassesList_align8_shift13_def)
  have "page_size c = 8192" "kCount c = Some 82"
    using assms by (simp_all add: page_size_def kCount_def)
  with sel rows show ?thesis by (simp add: table_lengths)
qed

theorem page_shift_13_align8_table_witness:
  "page_size
      \<lparr>cpp_aligned_new = True, STDCPP_DEFAULT_NEW_ALIGNMENT = 8,
      TCMALLOC_PAGE_SHIFT = 13, kMaxSize = 262144, kNumBaseClasses = 86\<rparr> = 8192
   \<and> kCount
      \<lparr>cpp_aligned_new = True, STDCPP_DEFAULT_NEW_ALIGNMENT = 8,
      TCMALLOC_PAGE_SHIFT = 13, kMaxSize = 262144, kNumBaseClasses = 86\<rparr> = Some 82
   \<and> (\<exists>t. kSizeClassesList
      \<lparr>cpp_aligned_new = True, STDCPP_DEFAULT_NEW_ALIGNMENT = 8,
      TCMALLOC_PAGE_SHIFT = 13, kMaxSize = 262144, kNumBaseClasses = 86\<rparr> = Inr t
      \<and> length t = 82 \<and> bytes (t ! 1) = 8 \<and> pages (t ! 1) = 1
      \<and> bytes (last t) = 262144 \<and> pages (last t) = 32)"
proof -
  have "align8
      \<lparr>cpp_aligned_new = True, STDCPP_DEFAULT_NEW_ALIGNMENT = 8,
      TCMALLOC_PAGE_SHIFT = 13, kMaxSize = 262144, kNumBaseClasses = 86\<rparr>"
    by (simp add: align8_def)
  from page_shift_13_align8_table [OF this] show ?thesis by fastforce
qed

subsection \<open>C3: sizes strictly increase from class 1 on\<close>

text \<open>
  C3: for every configuration's table, \<open>bytes\<close> is strictly increasing over the
  classes with index \<open>\<ge> 1\<close>: a later class is strictly larger than an earlier one.
\<close>

theorem size_bytes_strictly_increasing:
  assumes "kSizeClassesList c = Inr t" "1 \<le> i" "i < j" "j < length t"
  shows "bytes (t ! i) < bytes (t ! j)"
  using table_sizes_ascending [OF assms(1)] assms(3,4) by (rule ascending_nth)

theorem size_bytes_strictly_increasing_witness:
  "kSizeClassesList
      \<lparr>cpp_aligned_new = True, STDCPP_DEFAULT_NEW_ALIGNMENT = 8,
      TCMALLOC_PAGE_SHIFT = 15, kMaxSize = 262144, kNumBaseClasses = 78\<rparr>
     = Inr kSizeClassesList_align8_shift15
   \<and> (1::nat) \<le> 49 \<and> (49::nat) < 50 \<and> 50 < length kSizeClassesList_align8_shift15
   \<and> bytes (kSizeClassesList_align8_shift15 ! 49)
       < bytes (kSizeClassesList_align8_shift15 ! 50)"
proof -
  have sel: "kSizeClassesList
      \<lparr>cpp_aligned_new = True, STDCPP_DEFAULT_NEW_ALIGNMENT = 8,
      TCMALLOC_PAGE_SHIFT = 15, kMaxSize = 262144, kNumBaseClasses = 78\<rparr>
    = Inr kSizeClassesList_align8_shift15"
    by (rule kSizeClassesList_selects(2)) (simp_all add: align8_def)
  have "bytes (kSizeClassesList_align8_shift15 ! 49)
      < bytes (kSizeClassesList_align8_shift15 ! 50)"
    by (rule size_bytes_strictly_increasing [OF sel]) (simp_all add: table_lengths)
  with sel show ?thesis by (simp add: table_lengths)
qed

subsection \<open>C4: the last class is the maximum block size\<close>

text \<open>
  C4: for every configuration, \<open>bytes\<close> of the last class equals that
  configuration's \<^verbatim>\<open>kMaxSize\<close> exactly, which is 8192 for page shift 12 and 262144 for
  page shifts 13, 15 and 18; hence two configurations with the same maximum block
  size have the same last size.
\<close>

theorem last_class_is_kMaxSize:
  assumes "kSizeClassesList c = Inr t"
  shows "t \<noteq> [] \<and> bytes (t ! (length t - 1)) = kMaxSize c \<and>
     kMaxSize c = (if TCMALLOC_PAGE_SHIFT c = 12 then 8192 else 262144) \<and>
     (\<forall>c' t'. kSizeClassesList c' = Inr t' \<and> kMaxSize c' = kMaxSize c
        \<longrightarrow> bytes (t' ! (length t' - 1)) = bytes (t ! (length t - 1)))"
proof -
  have ne: "t \<noteq> []" using table_sentinel [OF assms] by simp
  have l: "bytes (t ! (length t - 1)) = kMaxSize c"
    using table_last [OF assms] ne by (simp add: last_conv_nth)
  have m: "kMaxSize c = (if TCMALLOC_PAGE_SHIFT c = 12 then 8192 else 262144)"
    using assms by (cases rule: kSizeClassesList_cases) simp_all
  have "bytes (t' ! (length t' - 1)) = bytes (t ! (length t - 1))"
    if "kSizeClassesList c' = Inr t'" "kMaxSize c' = kMaxSize c" for c' t'
  proof -
    have "t' \<noteq> []" using table_sentinel [OF that(1)] by simp
    then have "bytes (t' ! (length t' - 1)) = kMaxSize c'"
      using table_last [OF that(1)] by (simp add: last_conv_nth)
    with that(2) l show ?thesis by simp
  qed
  with ne l m show ?thesis by blast
qed

theorem last_class_is_kMaxSize_witness:
  "kSizeClassesList
      \<lparr>cpp_aligned_new = True, STDCPP_DEFAULT_NEW_ALIGNMENT = 8,
      TCMALLOC_PAGE_SHIFT = 12, kMaxSize = 8192, kNumBaseClasses = 46\<rparr>
     = Inr kSizeClassesList_align8_shift12
   \<and> bytes (kSizeClassesList_align8_shift12 ! (length kSizeClassesList_align8_shift12 - 1))
       = 8192
   \<and> bytes (kSizeClassesList_align16_shift12 ! (length kSizeClassesList_align16_shift12 - 1))
       = bytes (kSizeClassesList_align8_shift12 ! (length kSizeClassesList_align8_shift12 - 1))"
proof -
  have sel: "kSizeClassesList
      \<lparr>cpp_aligned_new = True, STDCPP_DEFAULT_NEW_ALIGNMENT = 8,
      TCMALLOC_PAGE_SHIFT = 12, kMaxSize = 8192, kNumBaseClasses = 46\<rparr>
    = Inr kSizeClassesList_align8_shift12"
    by (rule kSizeClassesList_selects(4)) (simp_all add: align8_def)
  have sel': "kSizeClassesList
      \<lparr>cpp_aligned_new = True, STDCPP_DEFAULT_NEW_ALIGNMENT = 16,
      TCMALLOC_PAGE_SHIFT = 12, kMaxSize = 8192, kNumBaseClasses = 46\<rparr>
    = Inr kSizeClassesList_align16_shift12"
    by (rule kSizeClassesList_selects(8)) (simp_all add: align8_def)
  from last_class_is_kMaxSize [OF sel] sel sel' show ?thesis by fastforce
qed

subsection \<open>C5: the sentinel class 0\<close>



subsection \<open>C6: a span holds at least one object\<close>

text \<open>
  C6: for every configuration's table and every class \<open>i \<ge> 1\<close>,
  \<open>pages * page_size \<ge> bytes\<close>, and the derived objects per span
  \<open>\<lfloor>pages * page_size / bytes\<rfloor>\<close> is at least 1.
\<close>

theorem span_holds_an_object:
  assumes "kSizeClassesList c = Inr t" "1 \<le> i" "i < length t"
  shows "bytes (t ! i) \<le> pages (t ! i) * page_size c \<and> 1 \<le> objects_per_span c (t ! i)"
proof -
  have "0 < bytes (t ! i) \<and> bytes (t ! i) \<le> pages (t ! i) * page_size c"
    using table_span_fits [OF assms(1)] assms(2,3) by (rule list_all_tl_nth)
  then show ?thesis
    by (simp add: objects_per_span_def Suc_le_eq div_greater_zero_iff)
qed

theorem span_holds_an_object_witness:
  "kSizeClassesList
      \<lparr>cpp_aligned_new = True, STDCPP_DEFAULT_NEW_ALIGNMENT = 16,
      TCMALLOC_PAGE_SHIFT = 13, kMaxSize = 262144, kNumBaseClasses = 86\<rparr>
     = Inr kSizeClassesList_align16_shift13
   \<and> (1::nat) \<le> 54 \<and> 54 < length kSizeClassesList_align16_shift13
   \<and> bytes (kSizeClassesList_align16_shift13 ! 54) = 8192
   \<and> bytes (kSizeClassesList_align16_shift13 ! 54)
       \<le> pages (kSizeClassesList_align16_shift13 ! 54) * page_size
      \<lparr>cpp_aligned_new = True, STDCPP_DEFAULT_NEW_ALIGNMENT = 16,
      TCMALLOC_PAGE_SHIFT = 13, kMaxSize = 262144, kNumBaseClasses = 86\<rparr>
   \<and> 1 \<le> objects_per_span
      \<lparr>cpp_aligned_new = True, STDCPP_DEFAULT_NEW_ALIGNMENT = 16,
      TCMALLOC_PAGE_SHIFT = 13, kMaxSize = 262144, kNumBaseClasses = 86\<rparr>
      (kSizeClassesList_align16_shift13 ! 54)"
proof -
  have sel: "kSizeClassesList
      \<lparr>cpp_aligned_new = True, STDCPP_DEFAULT_NEW_ALIGNMENT = 16,
      TCMALLOC_PAGE_SHIFT = 13, kMaxSize = 262144, kNumBaseClasses = 86\<rparr>
    = Inr kSizeClassesList_align16_shift13"
    by (rule kSizeClassesList_selects(5)) (simp_all add: align8_def)
  have row: "kSizeClassesList_align16_shift13 ! 54
      = \<lparr>bytes = 8192, pages = 1, batch = 8, cap = 207\<rparr>"
    by (simp add: kSizeClassesList_align16_shift13_def)
  have "(1::nat) \<le> 54" "54 < length kSizeClassesList_align16_shift13"
    by (simp_all add: table_lengths)
  from span_holds_an_object [OF sel this] sel row this show ?thesis by simp
qed

subsection \<open>C7: sizes and the minimum alignment\<close>

text \<open>
  C7 says that every class \<open>i \<ge> 1\<close> has a size that is a multiple of the
  configuration's minimum alignment, the alignment of its ABI mode. In the mode
  above 8 bytes this fails at class 1: all four tables of the outer \<^verbatim>\<open>#else\<close> start
  with an 8-byte class (lines 374, 467, 552, 648), and 8 is not a multiple of 16.
\<close>

theorem size_8_not_multiple_of_alignment_16:
  "kSizeClassesList
      \<lparr>cpp_aligned_new = True, STDCPP_DEFAULT_NEW_ALIGNMENT = 16,
      TCMALLOC_PAGE_SHIFT = 13, kMaxSize = 262144, kNumBaseClasses = 86\<rparr>
     = Inr kSizeClassesList_align16_shift13
   \<and> min_alignment
      \<lparr>cpp_aligned_new = True, STDCPP_DEFAULT_NEW_ALIGNMENT = 16,
      TCMALLOC_PAGE_SHIFT = 13, kMaxSize = 262144, kNumBaseClasses = 86\<rparr> = 16
   \<and> bytes (kSizeClassesList_align16_shift13 ! 1) = 8
   \<and> \<not> min_alignment
      \<lparr>cpp_aligned_new = True, STDCPP_DEFAULT_NEW_ALIGNMENT = 16,
      TCMALLOC_PAGE_SHIFT = 13, kMaxSize = 262144, kNumBaseClasses = 86\<rparr>
       dvd bytes (kSizeClassesList_align16_shift13 ! 1)"
proof -
  have row: "kSizeClassesList_align16_shift13 ! 1
      = \<lparr>bytes = 8, pages = 1, batch = 32, cap = 2369\<rparr>"
    by (simp add: kSizeClassesList_align16_shift13_def)
  have sel: "kSizeClassesList
      \<lparr>cpp_aligned_new = True, STDCPP_DEFAULT_NEW_ALIGNMENT = 16,
      TCMALLOC_PAGE_SHIFT = 13, kMaxSize = 262144, kNumBaseClasses = 86\<rparr>
    = Inr kSizeClassesList_align16_shift13"
    by (rule kSizeClassesList_selects(5)) (simp_all add: align8_def)
  show ?thesis
    using row by (simp add: sel min_alignment_def align8_def)
qed

text \<open>
  C7, amended: for every configuration's table and every class \<open>i \<ge> 1\<close>, the size
  is a multiple of 8; from class 2 on it is a multiple of the configuration's
  minimum alignment (8 or 16 by ABI mode). Class 1 is the 8-byte class in every
  table.
\<close>

theorem size_bytes_alignment:
  assumes "kSizeClassesList c = Inr t" "1 \<le> i" "i < length t"
  shows "8 dvd bytes (t ! i) \<and> (2 \<le> i \<longrightarrow> min_alignment c dvd bytes (t ! i)) \<and>
         bytes (t ! 1) = 8"
proof -
  have a: "8 dvd bytes (t ! i)"
    using table_multiple_of_8 [OF assms(1)] assms(2,3) by (rule list_all_tl_nth)
  have "min_alignment c dvd bytes (t ! i)" if "2 \<le> i"
  proof (cases "align8 c")
    case True
    with a show ?thesis by (simp add: min_alignment_def)
  next
    case False
    have "list_all (\<lambda>d. 16 dvd bytes d) (tl (tl t))"
      using assms(1) False by (rule table_multiple_of_16)
    moreover have "1 \<le> i - 1" "i - 1 < length (tl t)" using that assms(3) by simp_all
    ultimately have "16 dvd bytes (tl t ! (i - 1))" by (rule list_all_tl_nth)
    moreover have "tl t ! (i - 1) = t ! i"
      using that \<open>i - 1 < length (tl t)\<close> by (simp add: nth_tl)
    ultimately show ?thesis using False by (simp add: min_alignment_def)
  qed
  with a table_first_classes [OF assms(1)] show ?thesis by simp
qed

theorem size_bytes_alignment_witness:
  "kSizeClassesList
      \<lparr>cpp_aligned_new = True, STDCPP_DEFAULT_NEW_ALIGNMENT = 16,
      TCMALLOC_PAGE_SHIFT = 15, kMaxSize = 262144, kNumBaseClasses = 78\<rparr>
     = Inr kSizeClassesList_align16_shift15
   \<and> (1::nat) \<le> 5 \<and> 5 < length kSizeClassesList_align16_shift15 \<and> (2::nat) \<le> 5
   \<and> bytes (kSizeClassesList_align16_shift15 ! 5) = 80
   \<and> 8 dvd bytes (kSizeClassesList_align16_shift15 ! 5)
   \<and> min_alignment
      \<lparr>cpp_aligned_new = True, STDCPP_DEFAULT_NEW_ALIGNMENT = 16,
      TCMALLOC_PAGE_SHIFT = 15, kMaxSize = 262144, kNumBaseClasses = 78\<rparr>
       dvd bytes (kSizeClassesList_align16_shift15 ! 5)"
proof -
  have sel: "kSizeClassesList
      \<lparr>cpp_aligned_new = True, STDCPP_DEFAULT_NEW_ALIGNMENT = 16,
      TCMALLOC_PAGE_SHIFT = 15, kMaxSize = 262144, kNumBaseClasses = 78\<rparr>
    = Inr kSizeClassesList_align16_shift15"
    by (rule kSizeClassesList_selects(6)) (simp_all add: align8_def)
  have row: "kSizeClassesList_align16_shift15 ! 5
      = \<lparr>bytes = 80, pages = 1, batch = 32, cap = 2249\<rparr>"
    by (simp add: kSizeClassesList_align16_shift15_def)
  have "(1::nat) \<le> 5" "5 < length kSizeClassesList_align16_shift15"
    by (simp_all add: table_lengths)
  from size_bytes_alignment [OF sel this] sel row this show ?thesis by simp
qed

subsection \<open>C9: rounding a request up to a class\<close>

text \<open>
  C9: for every configuration and every requested size \<open>s\<close> with
  \<open>1 \<le> s \<le> kMaxSize\<close>, there is exactly one smallest class index \<open>i \<ge> 1\<close> with
  \<open>bytes[i] \<ge> s\<close>; rounding a request up to a class is a total function on that
  range.
\<close>

theorem request_rounds_up_to_unique_class:
  assumes "kSizeClassesList c = Inr t" "1 \<le> s" "s \<le> kMaxSize c"
  shows "\<exists>!i. 1 \<le> i \<and> i < length t \<and> s \<le> bytes (t ! i) \<and>
           (\<forall>j. 1 \<le> j \<and> j < length t \<and> s \<le> bytes (t ! j) \<longrightarrow> i \<le> j)"
proof -
  let ?fits = "\<lambda>i. 1 \<le> i \<and> i < length t \<and> s \<le> bytes (t ! i)"
  have len: "42 \<le> length t" using table_length [OF assms(1)] by simp
  then have "t \<noteq> []" by auto
  then have "bytes (t ! (length t - 1)) = kMaxSize c"
    using table_last [OF assms(1)] by (simp add: last_conv_nth)
  moreover have "1 \<le> length t - 1" "length t - 1 < length t" using len by arith+
  ultimately have top: "?fits (length t - 1)" using assms(3) by simp
  define m where "m = (LEAST i. ?fits i)"
  have fits_m: "?fits m" unfolding m_def using top by (rule LeastI)
  have least_m: "m \<le> j" if "?fits j" for j unfolding m_def using that by (rule Least_le)
  show ?thesis
  proof (rule ex1I [of _ m])
    show "1 \<le> m \<and> m < length t \<and> s \<le> bytes (t ! m) \<and>
           (\<forall>j. 1 \<le> j \<and> j < length t \<and> s \<le> bytes (t ! j) \<longrightarrow> m \<le> j)"
      using fits_m least_m by blast
  next
    fix i
    assume i: "1 \<le> i \<and> i < length t \<and> s \<le> bytes (t ! i) \<and>
           (\<forall>j. 1 \<le> j \<and> j < length t \<and> s \<le> bytes (t ! j) \<longrightarrow> i \<le> j)"
    then have "m \<le> i" using least_m by blast
    moreover from i fits_m have "i \<le> m" by blast
    ultimately show "i = m" by simp
  qed
qed

theorem request_rounds_up_to_unique_class_witness:
  "kSizeClassesList
      \<lparr>cpp_aligned_new = True, STDCPP_DEFAULT_NEW_ALIGNMENT = 8,
      TCMALLOC_PAGE_SHIFT = 18, kMaxSize = 262144, kNumBaseClasses = 89\<rparr>
     = Inr kSizeClassesList_align8_shift18
   \<and> (1::nat) \<le> 100 \<and> 100 \<le> kMaxSize
      \<lparr>cpp_aligned_new = True, STDCPP_DEFAULT_NEW_ALIGNMENT = 8,
      TCMALLOC_PAGE_SHIFT = 18, kMaxSize = 262144, kNumBaseClasses = 89\<rparr>
   \<and> (\<exists>i. 1 \<le> i \<and> i < length kSizeClassesList_align8_shift18
        \<and> 100 \<le> bytes (kSizeClassesList_align8_shift18 ! i))"
proof -
  have sel: "kSizeClassesList
      \<lparr>cpp_aligned_new = True, STDCPP_DEFAULT_NEW_ALIGNMENT = 8,
      TCMALLOC_PAGE_SHIFT = 18, kMaxSize = 262144, kNumBaseClasses = 89\<rparr>
    = Inr kSizeClassesList_align8_shift18"
    by (rule kSizeClassesList_selects(3)) (simp_all add: align8_def)
  have "\<exists>!i. 1 \<le> i \<and> i < length kSizeClassesList_align8_shift18
      \<and> 100 \<le> bytes (kSizeClassesList_align8_shift18 ! i)
      \<and> (\<forall>j. 1 \<le> j \<and> j < length kSizeClassesList_align8_shift18
            \<and> 100 \<le> bytes (kSizeClassesList_align8_shift18 ! j) \<longrightarrow> i \<le> j)"
    by (rule request_rounds_up_to_unique_class [OF sel]) simp_all
  then have "\<exists>i. 1 \<le> i \<and> i < length kSizeClassesList_align8_shift18
      \<and> 100 \<le> bytes (kSizeClassesList_align8_shift18 ! i)"
    by blast
  with sel show ?thesis by simp
qed

subsection \<open>C10: transfer batches do not grow with the class\<close>

text \<open>
  C10: in every configuration's table, \<open>batch\<close> is non-increasing over the classes
  with index \<open>\<ge> 1\<close>: for all \<open>i \<ge> 2\<close>, \<open>batch[i] \<le> batch[i-1]\<close>.
\<close>

theorem transfer_batch_non_increasing:
  assumes "kSizeClassesList c = Inr t" "2 \<le> i" "i < length t"
  shows "batch (t ! i) \<le> batch (t ! (i - 1))"
  using table_batch_descending [OF assms(1)] assms(2,3) by (rule successively_tl_nth)

theorem transfer_batch_non_increasing_witness:
  "kSizeClassesList
      \<lparr>cpp_aligned_new = True, STDCPP_DEFAULT_NEW_ALIGNMENT = 16,
      TCMALLOC_PAGE_SHIFT = 18, kMaxSize = 262144, kNumBaseClasses = 89\<rparr>
     = Inr kSizeClassesList_align16_shift18
   \<and> (2::nat) \<le> 37 \<and> 37 < length kSizeClassesList_align16_shift18
   \<and> batch (kSizeClassesList_align16_shift18 ! 37) = 30
   \<and> batch (kSizeClassesList_align16_shift18 ! (37 - 1)) = 32
   \<and> batch (kSizeClassesList_align16_shift18 ! 37)
       \<le> batch (kSizeClassesList_align16_shift18 ! (37 - 1))"
proof -
  have sel: "kSizeClassesList
      \<lparr>cpp_aligned_new = True, STDCPP_DEFAULT_NEW_ALIGNMENT = 16,
      TCMALLOC_PAGE_SHIFT = 18, kMaxSize = 262144, kNumBaseClasses = 89\<rparr>
    = Inr kSizeClassesList_align16_shift18"
    by (rule kSizeClassesList_selects(7)) (simp_all add: align8_def)
  have rows:
    "kSizeClassesList_align16_shift18 ! 36 = \<lparr>bytes = 2048, pages = 1, batch = 32, cap = 191\<rparr>"
    "kSizeClassesList_align16_shift18 ! 37 = \<lparr>bytes = 2176, pages = 1, batch = 30, cap = 278\<rparr>"
    by (simp_all add: kSizeClassesList_align16_shift18_def)
  have h: "(2::nat) \<le> 37" "37 < length kSizeClassesList_align16_shift18"
    by (simp_all add: table_lengths)
  from transfer_batch_non_increasing [OF sel h] sel rows h show ?thesis by simp
qed

end
